theory Spec2Isabelle
  imports Main
begin

section \<open>bgpipe: the pipeline orchestrator and the external I/O adapter\<close>

text \<open>
  A shallow embedding of the parts of \<^verbatim>\<open>pkg/bgpipe\<close> (stage configuration and
  attachment) and of the \<^verbatim>\<open>extio\<close> adapter that the specification talks about.
  Go strings and byte slices are \<open>string\<close> (lists of 8-bit characters), Go's \<open>int\<close>
  is \<open>int\<close>, a \<open>nil\<close> pointer in a slice of pointers is \<open>None\<close>.
\<close>

subsection \<open>Helpers of the Go standard library\<close>

text \<open>
  \<^verbatim>\<open>strings.IndexByte(s, c)\<close> / \<^verbatim>\<open>bytes.IndexByte(b, c)\<close>: the index of the first
  occurrence of \<open>c\<close>, or \<open>-1\<close> when there is none.
\<close>

fun IndexByte :: "string \<Rightarrow> char \<Rightarrow> int" where
  "IndexByte [] c = - 1"
| "IndexByte (x # xs) c =
     (if x = c then 0
      else (let i = IndexByte xs c in if i < 0 then - 1 else i + 1))"

text \<open>
  The ASCII part of \<^verbatim>\<open>strings.ToUpper\<close>: the letters \<open>a\<close> .. \<open>z\<close> are mapped to
  \<open>A\<close> .. \<open>Z\<close>, every other byte is kept. It is used to run \<open>cfgEvents\<close> on ASCII
  event names; \<open>cfgEvents\<close> itself takes the case mapping as a parameter.
\<close>

definition upper_byte :: "char \<Rightarrow> char" where
  "upper_byte c =
     (case map_of (zip ''abcdefghijklmnopqrstuvwxyz'' ''ABCDEFGHIJKLMNOPQRSTUVWXYZ'') c of
        Some u \<Rightarrow> u
      | None \<Rightarrow> c)"

definition ToUpper_ascii :: "string \<Rightarrow> string" where
  "ToUpper_ascii s = map upper_byte s"

subsection \<open>Event names: \<^verbatim>\<open>StageBase.cfgEvents\<close>\<close>

text \<open>
  The body of the rewrite loop of \<^verbatim>\<open>cfgEvents\<close> for one event name \<open>et\<close>.
  \<open>has_pkg\<close> and \<open>has_lib\<close> are \<^verbatim>\<open>strings.IndexByte(et, '.') > 0\<close> and
  \<^verbatim>\<open>strings.IndexByte(et, '/') > 0\<close>. \<open>ToUpper\<close> is \<^verbatim>\<open>strings.ToUpper\<close>.
\<close>

definition cfgEvent :: "(string \<Rightarrow> string) \<Rightarrow> string \<Rightarrow> string" where
  "cfgEvent ToUpper et =
     (let has_pkg = IndexByte et (CHR ''.'') > 0;
          has_lib = IndexByte et (CHR ''/'') > 0
      in if has_pkg \<and> has_lib then et
         else if \<not> has_lib then
           (if \<not> has_pkg then ''bgpfix/pipe.'' @ ToUpper et else ''bgpfix/'' @ et)
         else et)"

text \<open>
  \<^verbatim>\<open>cfgEvents(key)\<close>, given \<open>events = s.K.Strings(key)\<close>: \<open>nil\<close> (the empty list)
  when there are none, otherwise every entry rewritten in place.
\<close>

definition cfgEvents :: "(string \<Rightarrow> string) \<Rightarrow> string list \<Rightarrow> string list" where
  "cfgEvents ToUpper events =
     (if length events = 0 then [] else map (cfgEvent ToUpper) events)"

subsection \<open>Integers in decimal: \<^verbatim>\<open>strconv.Atoi\<close>\<close>

text \<open>
  \<^verbatim>\<open>strconv.Atoi\<close> on a 64-bit platform: an optional sign, then at least one decimal
  digit and nothing else; \<open>None\<close> stands for a non-nil error (bad syntax, or a value
  outside the range of \<open>int\<close>).
\<close>

definition is_digit :: "char \<Rightarrow> bool" where
  "is_digit c = (c \<in> set ''0123456789'')"

definition digit_val :: "char \<Rightarrow> int" where
  "digit_val c = int (of_char c) - 48"

fun digits_val :: "int \<Rightarrow> string \<Rightarrow> int" where
  "digits_val n [] = n"
| "digits_val n (ch # s) = digits_val (n * 10 + digit_val ch) s"

definition Atoi :: "string \<Rightarrow> int option" where
  "Atoi s0 =
     (let neg = (s0 \<noteq> [] \<and> hd s0 = CHR ''-'');
          s = (if s0 \<noteq> [] \<and> (hd s0 = CHR ''-'' \<or> hd s0 = CHR ''+'') then tl s0 else s0)
      in if s = [] \<or> \<not> list_all is_digit s then None
         else (let n = (if neg then - digits_val 0 s else digits_val 0 s)
               in if n < - (2 ^ 63) \<or> 2 ^ 63 - 1 < n then None else Some n))"

subsection \<open>Stages and the pipe options they register on\<close>

text \<open>\<^verbatim>\<open>msg.Dir\<close> of bgpfix: the zero value, \<open>DIR_L\<close>, \<open>DIR_R\<close> and \<open>DIR_LR\<close>.\<close>

datatype dir = DIR_NONE | DIR_L | DIR_R | DIR_LR

text \<open>\<^verbatim>\<open>pipe.FilterMode\<close> of bgpfix, the values \<open>attach\<close> uses.\<close>

datatype FilterMode =
  FILTER_NONE | FILTER_ALL | FILTER_GE | FILTER_LE | FILTER_GT | FILTER_LT

text \<open>The two lines of the pipe, \<^verbatim>\<open>p.L\<close> and \<^verbatim>\<open>p.R\<close>.\<close>

datatype line = Line_L | Line_R

text \<open>The keys of the stage's config store \<^verbatim>\<open>s.K\<close> that are read here.\<close>

record stage_K =
  k_left :: bool
  k_right :: bool
  k_in :: string

text \<open>\<^verbatim>\<open>s.Options\<close>, the role flags a stage declares.\<close>

record stage_options =
  Bidir :: bool
  IsProducer :: bool
  IsConsumer :: bool
  IsStdin :: bool
  IsStdout :: bool

text \<open>
  \<^verbatim>\<open>pipe.Callback\<close>, \<^verbatim>\<open>pipe.Handler\<close> and \<^verbatim>\<open>pipe.Input\<close>, the fields \<open>attach\<close> reads
  and writes. \<open>Enabled\<close> is a pointer to a stage's \<open>running\<close> flag: \<open>Some i\<close> points to the flag of
  the stage with index \<open>i\<close>.
\<close>

record pipe_callback =
  cb_Id :: int
  cb_Enabled :: "int option"

text \<open>
  The function of a handler: \<open>runStart\<close> or \<open>runStop\<close> of the stage with the given
  index, or a function of a stage's implementation.
\<close>

datatype handler_func = runStart int | runStop int | stage_func nat

record pipe_handler =
  h_Id :: int
  h_Enabled :: "int option"
  h_Pre :: bool
  h_Post :: bool
  h_Types :: "string list"
  h_Func :: handler_func

text \<open>\<^verbatim>\<open>pipe.EVENT_START\<close> of bgpfix.\<close>

definition EVENT_START :: string where
  "EVENT_START = ''bgpfix/pipe.START''"

record pipe_input =
  in_Id :: int
  in_Dir :: dir
  in_Reverse :: bool
  in_CallbackFilter :: FilterMode
  in_FilterValue :: int

text \<open>\<^verbatim>\<open>p.Options\<close>: everything registered on the pipe so far.\<close>

record pipe_options =
  Callbacks :: "pipe_callback list"
  Handlers :: "pipe_handler list"
  Inputs :: "pipe_input list"

record StageBase =
  Index :: int
  Name :: string
  Cmd :: string
  K :: stage_K
  Options :: stage_options
  IsFirst :: bool
  IsLast :: bool
  IsLeft :: bool
  IsRight :: bool
  Dir :: dir
  Upstream :: "line option"
  Downstream :: "line option"
  callbacks :: "pipe_callback list"
  handlers :: "pipe_handler list"
  inputs :: "pipe_input list"

text \<open>
  What \<open>attach\<close> can end with other than \<open>nil\<close>: \<open>ErrLR\<close>, \<open>ErrFirstOrLast\<close>,
  \<open>ErrInject\<close> wrapped with the offending \<open>--in\<close> value, an error of the stage's own
  \<open>Attach\<close>, or a run-time panic.
\<close>

datatype attach_error =
  ErrLR | ErrFirstOrLast | ErrInject string | ErrStage string | Panic string

subsection \<open>\<^verbatim>\<open>Bgpipe.Attach\<close>: reversing the pipe\<close>

text \<open>
  The loop \<^verbatim>\<open>for idx, s := range b.Stages\<close> of the \<open>--reverse\<close> block: \<open>nil\<close> slots are
  skipped, every other stage gets its position as \<open>Index\<close> and its \<open>left\<close> and \<open>right\<close>
  options swapped.
\<close>

fun reverse_fix :: "int \<Rightarrow> StageBase option list \<Rightarrow> StageBase option list" where
  "reverse_fix idx [] = []"
| "reverse_fix idx (None # ss) = None # reverse_fix (idx + 1) ss"
| "reverse_fix idx (Some s # ss) =
     Some (s\<lparr>Index := idx,
             K := (K s)\<lparr>k_left := k_right (K s), k_right := k_left (K s)\<rparr>\<rparr>)
       # reverse_fix (idx + 1) ss"

text \<open>
  The \<open>--reverse\<close> block of \<open>Attach\<close> on \<open>b.Stages\<close>: \<^verbatim>\<open>slices.Reverse(b.Stages[1:])\<close>,
  then the loop. Slicing an empty \<open>b.Stages\<close> from 1 panics: \<open>None\<close>.
\<close>

definition Attach_reverse :: "bool \<Rightarrow> StageBase option list \<Rightarrow> StageBase option list option" where
  "Attach_reverse reverse Stages =
     (if reverse then
        (case Stages of
           [] \<Rightarrow> None
         | s0 # rest \<Rightarrow> Some (reverse_fix 0 (s0 # rev rest)))
      else Some Stages)"

subsection \<open>\<^verbatim>\<open>StageBase.attach\<close>\<close>

text \<open>First or last? \<open>StageCount\<close> is \<^verbatim>\<open>b.StageCount()\<close>.\<close>

definition attach_position :: "int \<Rightarrow> StageBase \<Rightarrow> StageBase" where
  "attach_position StageCount s =
     (if Index s = 1 then s\<lparr>IsFirst := True\<rparr>
      else if Index s = StageCount then s\<lparr>IsLast := True\<rparr>
      else s)"

text \<open>Left or right? The options, then the default with its two exceptions.\<close>

definition attach_direction :: "StageBase \<Rightarrow> attach_error + StageBase" where
  "attach_direction s0 =
     (let s = s0\<lparr>IsLeft := k_left (K s0), IsRight := k_right (K s0)\<rparr>
      in if IsLeft s \<and> IsRight s then
           (if \<not> Bidir (Options s) then Inl ErrLR else Inr s)
         else if IsLeft s = IsRight s then
           (let s1 = s\<lparr>IsRight := True\<rparr>;
                s2 = (if IsLast s1 \<and> IsProducer (Options s1) then s1\<lparr>IsRight := False\<rparr>
                      else if IsFirst s1 \<and> \<not> IsProducer (Options s1)
                        then s1\<lparr>IsRight := False\<rparr>
                      else s1)
            in Inr (s2\<lparr>IsLeft := \<not> IsRight s2\<rparr>))
         else Inr s)"

text \<open>Setting \<open>s.Dir\<close>, and the two lines of a unidirectional stage.\<close>

definition attach_Dir :: "StageBase \<Rightarrow> StageBase" where
  "attach_Dir s =
     (if IsLeft s \<and> IsRight s then s\<lparr>Dir := DIR_LR\<rparr>
      else if IsLeft s then s\<lparr>Dir := DIR_L, Upstream := Some Line_L, Downstream := Some Line_R\<rparr>
      else s\<lparr>Dir := DIR_R, Upstream := Some Line_R, Downstream := Some Line_L\<rparr>)"

text \<open>
  The loop over \<^verbatim>\<open>s.B.Stages\<close> that resolves an \<open>@name\<close>: \<open>fid\<close> becomes the index of the
  first stage whose name is \<open>v\<close>, and is left as it was when there is none.
\<close>

fun find_name :: "StageBase option list \<Rightarrow> string \<Rightarrow> int \<Rightarrow> int" where
  "find_name [] v fid = fid"
| "find_name (None # ss) v fid = find_name ss v fid"
| "find_name (Some s2 # ss) v fid = (if Name s2 = v then Index s2 else find_name ss v fid)"

text \<open>
  Where to inject new messages: the \<^verbatim>\<open>switch v := k.String("in")\<close>. The result is
  the reverse mode, the forward mode and the filter id, or the \<open>ErrInject\<close> error.
\<close>

definition in_filter ::
  "int \<Rightarrow> StageBase option list \<Rightarrow> string \<Rightarrow> attach_error + (FilterMode \<times> FilterMode \<times> int)" where
  "in_filter index Stages v =
     (if v = ''next'' \<or> v = [] then Inr (FILTER_GE, FILTER_LE, index)
      else if v = ''here'' then Inr (FILTER_GT, FILTER_LT, index)
      else if v = ''first'' then Inr (FILTER_NONE, FILTER_NONE, 0)
      else if v = ''last'' then Inr (FILTER_ALL, FILTER_ALL, 0)
      else
        (let fid = (case Atoi v of
                      Some i \<Rightarrow> i
                    | None \<Rightarrow>
                        if length v > 0 \<and> hd v = CHR ''@'' then find_name Stages v 0 else 0)
         in if fid \<le> 0 then Inl (ErrInject v)
            else Inr (FILTER_GE, FILTER_LE, fid)))"

text \<open>The body of the loop that fixes the inputs the stage has registered.\<close>

definition fix_input :: "int \<Rightarrow> FilterMode \<Rightarrow> FilterMode \<Rightarrow> int \<Rightarrow> pipe_input \<Rightarrow> pipe_input" where
  "fix_input index frev ffwd fid li =
     (let li1 = li\<lparr>in_Id := index, in_FilterValue := fid\<rparr>
      in if in_Dir li1 = DIR_L then li1\<lparr>in_Reverse := True, in_CallbackFilter := frev\<rparr>
         else li1\<lparr>in_Reverse := False, in_CallbackFilter := ffwd\<rparr>)"

text \<open>
  The block of \<open>attach\<close> for a stage that is not internal (\<open>Index > 0\<close>), after the
  stage's own \<open>Attach\<close> has left the pipe options as \<open>po\<close>; \<open>cbs\<close>, \<open>hds\<close> and \<open>ins\<close> are
  the lengths of the three lists before it. In the order of the source: the logger
  (\<^verbatim>\<open>name[0]\<close> panics on an empty name), the consumer check, the callbacks, the
  handlers, the injection filter, the inputs. The objects are shared with the pipe
  options, so these are rewritten too.
\<close>

definition attach_fix ::
  "StageBase option list \<Rightarrow> nat \<Rightarrow> nat \<Rightarrow> nat \<Rightarrow> StageBase \<Rightarrow> pipe_options
     \<Rightarrow> attach_error + (StageBase \<times> pipe_options)" where
  "attach_fix Stages cbs hds ins s po =
     (if Name s = [] then Inl (Panic ''index out of range'')
      else if IsConsumer (Options s) \<and> \<not> (IsFirst s \<or> IsLast s) then Inl ErrFirstOrLast
      else if length (Callbacks po) < cbs \<or> length (Handlers po) < hds
        then Inl (Panic ''slice bounds out of range'')
      else
        (let cbs' = map (\<lambda>cb. cb\<lparr>cb_Id := Index s, cb_Enabled := Some (Index s)\<rparr>)
                      (drop cbs (Callbacks po));
             hds' = map (\<lambda>h. h\<lparr>h_Id := Index s, h_Enabled := Some (Index s)\<rparr>)
                      (drop hds (Handlers po))
         in case in_filter (Index s) Stages (k_in (K s)) of
              Inl e \<Rightarrow> Inl e
            | Inr (frev, ffwd, fid) \<Rightarrow>
                if length (Inputs po) < ins then Inl (Panic ''slice bounds out of range'')
                else
                  (let ins' = map (fix_input (Index s) frev ffwd fid) (drop ins (Inputs po))
                   in Inr (s\<lparr>callbacks := cbs', handlers := hds', inputs := ins'\<rparr>,
                           po\<lparr>Callbacks := take cbs (Callbacks po) @ cbs',
                              Handlers := take hds (Handlers po) @ hds',
                              Inputs := take ins (Inputs po) @ ins'\<rparr>))))"

text \<open>
  \<open>attach\<close> up to the inputs. \<open>StageCount\<close> is \<^verbatim>\<open>b.StageCount()\<close>, \<open>Stages\<close> is
  \<^verbatim>\<open>s.B.Stages\<close>, \<open>Stage_Attach\<close> is the \<open>Attach\<close> of the stage's implementation, which
  registers callbacks, handlers and inputs on the pipe options or fails.
\<close>

definition attach_to_inputs ::
  "int \<Rightarrow> StageBase option list \<Rightarrow> (StageBase \<Rightarrow> pipe_options \<Rightarrow> attach_error + pipe_options)
     \<Rightarrow> pipe_options \<Rightarrow> StageBase \<Rightarrow> attach_error + (StageBase \<times> pipe_options)" where
  "attach_to_inputs StageCount Stages Stage_Attach po s0 =
     (case attach_direction (attach_position StageCount s0) of
        Inl e \<Rightarrow> Inl e
      | Inr s1 \<Rightarrow>
          (let s = attach_Dir s1;
               cbs = length (Callbacks po);
               hds = length (Handlers po);
               ins = length (Inputs po)
           in case Stage_Attach s po of
                Inl e \<Rightarrow> Inl e
              | Inr po1 \<Rightarrow>
                  if Index s > 0 then attach_fix Stages cbs hds ins s po1
                  else Inr (s, po1)))"

text \<open>
  \<^verbatim>\<open>po.OnEventPre(f, types...)\<close> and \<^verbatim>\<open>po.OnEventPost(f, types...)\<close> of bgpfix: a new
  handler for the given function and event types is appended to the handlers of the
  pipe options.
\<close>

definition OnEventPre :: "handler_func \<Rightarrow> string list \<Rightarrow> pipe_options \<Rightarrow> pipe_options" where
  "OnEventPre f types po =
     po\<lparr>Handlers := Handlers po @
          [\<lparr>h_Id = 0, h_Enabled = None, h_Pre = True, h_Post = False,
            h_Types = types, h_Func = f\<rparr>]\<rparr>"

definition OnEventPost :: "handler_func \<Rightarrow> string list \<Rightarrow> pipe_options \<Rightarrow> pipe_options" where
  "OnEventPost f types po =
     po\<lparr>Handlers := Handlers po @
          [\<lparr>h_Id = 0, h_Enabled = None, h_Pre = False, h_Post = True,
            h_Types = types, h_Func = f\<rparr>]\<rparr>"

text \<open>
  The loop \<^verbatim>\<open>for i, t := range h.Types\<close> that re-targets the \<open>EVENT_START\<close> types of a
  handler to the \<open>--wait\<close> events \<open>evs\<close> (which are not empty there): \<open>ts\<close> is what is
  left of the types the loop ranges over, \<open>i\<close> the position, \<open>cur\<close> the types of the
  handler as they are by then. At an \<open>EVENT_START\<close> the entry becomes the first event,
  and the other events are appended.
\<close>

fun retarget_loop :: "nat \<Rightarrow> string list \<Rightarrow> string list \<Rightarrow> string list \<Rightarrow> string list" where
  "retarget_loop i [] cur evs = cur"
| "retarget_loop i (t # ts) cur evs =
     retarget_loop (i + 1) ts
       (if t = EVENT_START then cur[i := hd evs] @ tl evs else cur) evs"

definition retarget :: "string list \<Rightarrow> pipe_handler \<Rightarrow> pipe_handler" where
  "retarget evs h = h\<lparr>h_Types := retarget_loop 0 (h_Types h) (h_Types h) evs\<rparr>"

text \<open>
  The end of \<open>attach\<close>, after the inputs: the handlers for the start and the stop of
  the stage. \<open>wait\<close> and \<open>stop\<close> are \<^verbatim>\<open>b.parseEvents(k, "wait")\<close> and
  \<^verbatim>\<open>b.parseEvents(k, "stop")\<close>; \<open>hds\<close> is the number of handlers the pipe had before
  the stage's own \<open>Attach\<close>. The handlers of the stage are shared with the pipe options,
  where they stand from position \<open>hds\<close> on (a stage with index 0 has none), so
  re-targeting them rewrites both. The wait groups (\<^verbatim>\<open>s.wgAdd(1)\<close>) belong to the
  \<open>Bgpipe\<close> and are not part of this state; the tracing at the end only logs.
\<close>

definition attach_events ::
  "string list \<Rightarrow> string list \<Rightarrow> nat \<Rightarrow> StageBase \<times> pipe_options
     \<Rightarrow> StageBase \<times> pipe_options" where
  "attach_events wait stop hds sp =
     (case sp of (s, po) \<Rightarrow>
        (let (s1, po1) =
               (if length wait > 0 then
                  (let po_w = OnEventPre (runStart (Index s)) wait po;
                       n = length (handlers s)
                   in (s\<lparr>handlers := map (retarget wait) (handlers s)\<rparr>,
                       po_w\<lparr>Handlers :=
                              take hds (Handlers po_w) @
                              map (retarget wait) (take n (drop hds (Handlers po_w))) @
                              drop (hds + n) (Handlers po_w)\<rparr>))
                else (s, OnEventPre (runStart (Index s)) [EVENT_START] po))
         in if length stop > 0 then (s1, OnEventPost (runStop (Index s)) stop po1)
            else (s1, po1)))"

text \<open>\<open>attach\<close>: the stage and the pipe options as it leaves them, or its error.\<close>

definition attach ::
  "int \<Rightarrow> StageBase option list \<Rightarrow> (StageBase \<Rightarrow> pipe_options \<Rightarrow> attach_error + pipe_options)
     \<Rightarrow> string list \<Rightarrow> string list \<Rightarrow> pipe_options \<Rightarrow> StageBase
     \<Rightarrow> attach_error + (StageBase \<times> pipe_options)" where
  "attach StageCount Stages Stage_Attach wait stop po s0 =
     (case attach_to_inputs StageCount Stages Stage_Attach po s0 of
        Inl e \<Rightarrow> Inl e
      | Inr sp \<Rightarrow> Inr (attach_events wait stop (length (Handlers po)) sp))"

subsection \<open>Stages to run the model on\<close>

text \<open>
  A stage as it is before \<open>Attach\<close>: an index, a name, its \<open>left\<close>, \<open>right\<close> and
  \<open>in\<close> options and its role flags; nothing resolved or registered yet.
\<close>

definition example_stage :: "int \<Rightarrow> string \<Rightarrow> bool \<Rightarrow> bool \<Rightarrow> string \<Rightarrow> stage_options \<Rightarrow> StageBase" where
  "example_stage i n l r v opts =
     \<lparr>Index = i, Name = n, Cmd = n, K = \<lparr>k_left = l, k_right = r, k_in = v\<rparr>,
      Options = opts,
      IsFirst = False, IsLast = False, IsLeft = False, IsRight = False, Dir = DIR_NONE,
      Upstream = None, Downstream = None, callbacks = [], handlers = [], inputs = []\<rparr>"

definition no_options :: stage_options where
  "no_options = \<lparr>Bidir = False, IsProducer = False, IsConsumer = False, IsStdin = False, IsStdout = False\<rparr>"


text \<open>
  Pipe options with nothing registered, a fresh input of a given direction, a stage
  implementation whose \<open>Attach\<close> registers one \<open>L\<close> and one \<open>R\<close> input, and a pipe of
  three stages, two of them with the same name.
\<close>

definition no_pipe_options :: pipe_options where
  "no_pipe_options = \<lparr>Callbacks = [], Handlers = [], Inputs = []\<rparr>"

definition new_input :: "dir \<Rightarrow> pipe_input" where
  "new_input d = \<lparr>in_Id = 0, in_Dir = d, in_Reverse = False,
                   in_CallbackFilter = FILTER_NONE, in_FilterValue = 0\<rparr>"

definition Attach_two_inputs :: "StageBase \<Rightarrow> pipe_options \<Rightarrow> attach_error + pipe_options" where
  "Attach_two_inputs s po = Inr (po\<lparr>Inputs := Inputs po @ [new_input DIR_L, new_input DIR_R]\<rparr>)"

definition example_stages :: "StageBase option list" where
  "example_stages =
     [None, Some (example_stage 1 ''@a'' False False ''@b'' no_options),
      Some (example_stage 2 ''@b'' False False ''0'' no_options),
      Some (example_stage 3 ''@b'' False False ''here'' no_options)]"


subsection \<open>The external I/O adapter: messages, the codec and the pipe\<close>

text \<open>
  \<^verbatim>\<open>msg.Type\<close> of bgpfix is a byte: \<open>INVALID\<close> is 0, the others are the BGP type codes.
\<close>

type_synonym msg_type = nat

definition INVALID :: msg_type where "INVALID = 0"
definition OPEN :: msg_type where "OPEN = 1"
definition UPDATE :: msg_type where "UPDATE = 2"
definition NOTIFY :: msg_type where "NOTIFY = 3"
definition KEEPALIVE :: msg_type where "KEEPALIVE = 4"

text \<open>
  A message \<^verbatim>\<open>*msg.Msg\<close> with its pipe context: direction, type, sequence number,
  time, payload, the tags of the context, and whether the context's action has the drop
  flag.
\<close>

record msg =
  m_Dir :: dir
  m_Type :: msg_type
  m_Seq :: int
  m_Time :: nat
  m_Data :: string
  m_Tags :: "(string \<times> string) list"
  m_drop :: bool

text \<open>\<^verbatim>\<open>eio.P.GetMsg()\<close>: an empty message.\<close>

definition GetMsg :: msg where
  "GetMsg = \<lparr>m_Dir = DIR_NONE, m_Type = INVALID, m_Seq = 0, m_Time = 0, m_Data = [],
             m_Tags = [], m_drop = False\<rparr>"

text \<open>\<^verbatim>\<open>m.Use(typ)\<close>: the message is of the given type from now on.\<close>

definition Use :: "msg_type \<Rightarrow> msg \<Rightarrow> msg" where
  "Use typ m = m\<lparr>m_Type := typ\<rparr>"

text \<open>
  The errors the adapter returns or logs: its own \<open>ErrLength\<close> and \<open>ErrFormat\<close>,
  \<^verbatim>\<open>mrt.ErrSub\<close>, \<^verbatim>\<open>io.EOF\<close>, \<^verbatim>\<open>io.ErrUnexpectedEOF\<close>, the three errors \<open>Attach\<close>
  builds with \<^verbatim>\<open>fmt.Errorf\<close>, and any other error of the codec, the pipe or a reader.
\<close>

datatype extio_error =
  ErrLength | ErrFormat | ErrSub | EOF | ErrUnexpectedEOF
  | ErrType extio_error | ErrReadWrite | ErrRawMrt | ErrOther string

text \<open>A call returns a value or panics.\<close>

datatype 'a outcome = Returns 'a | Panics string

text \<open>
  What the adapter calls in bgpfix and the Go library, as parameters; \<open>'p\<close> is the
  state of the pipe (its inputs, with everything written to them, and its callbacks).
  In the order of the fields: \<^verbatim>\<open>bytes.TrimSpace\<close>; \<^verbatim>\<open>m.FromBytes(buf)\<close> and
  \<^verbatim>\<open>eio.mrt.FromBytes(buf, m, nil)\<close>, which give the number of bytes read and an error;
  \<^verbatim>\<open>m.FromJSON(buf)\<close> and \<^verbatim>\<open>m.Update.FromJSON(buf)\<close>; \<^verbatim>\<open>in.WriteMsg(m)\<close> for the input
  with the given reference; \<^verbatim>\<open>in.WriteFunc(buf, check)\<close> and \<^verbatim>\<open>eio.mrt.WriteFunc(buf,
  check)\<close>; \<^verbatim>\<open>time.Now().UTC()\<close>; \<^verbatim>\<open>m.Marshal(caps)\<close>, which gives the wire bytes it leaves
  in the message; \<^verbatim>\<open>m.WriteTo(bb)\<close>, which gives the bytes written; \<^verbatim>\<open>m.GetJSON()\<close>; \<^verbatim>\<open>msg.TypeString(v)\<close>; \<^verbatim>\<open>p.AddInput(dir)\<close> and
  \<^verbatim>\<open>p.OnMsg(eio.SendMsg, dir, types...)\<close>, which give a reference to what they add.
\<close>

record 'p lib =
  TrimSpace :: "string \<Rightarrow> string"
  FromBytes :: "string \<Rightarrow> msg \<Rightarrow> (int \<times> extio_error option) \<times> msg"
  mrt_FromBytes :: "string \<Rightarrow> msg \<Rightarrow> (int \<times> extio_error option) \<times> msg"
  FromJSON :: "string \<Rightarrow> msg \<Rightarrow> extio_error option \<times> msg"
  Update_FromJSON :: "string \<Rightarrow> msg \<Rightarrow> extio_error option \<times> msg"
  WriteMsg :: "nat \<Rightarrow> msg \<Rightarrow> 'p \<Rightarrow> extio_error option \<times> 'p"
  WriteFunc :: "nat \<Rightarrow> string \<Rightarrow> (msg \<Rightarrow> bool \<times> msg) \<Rightarrow> 'p \<Rightarrow> (int \<times> extio_error option) \<times> 'p"
  mrt_WriteFunc :: "string \<Rightarrow> (msg \<Rightarrow> bool \<times> msg) \<Rightarrow> 'p \<Rightarrow> (int \<times> extio_error option) \<times> 'p"
  Now :: nat
  Marshal :: "msg \<Rightarrow> extio_error option \<times> string"
  WriteTo :: "msg \<Rightarrow> extio_error option \<times> string"
  GetJSON :: "msg \<Rightarrow> string"
  TypeString :: "string \<Rightarrow> extio_error + msg_type"
  AddInput :: "dir \<Rightarrow> 'p \<Rightarrow> nat \<times> 'p"
  OnMsg :: "dir \<Rightarrow> msg_type list \<Rightarrow> 'p \<Rightarrow> nat \<times> 'p"

subsection \<open>The external I/O adapter: \<^verbatim>\<open>Extio\<close>\<close>

text \<open>A line of the stage's log: the level, the error, the message.\<close>

datatype log_level = LogErr | LogWarn

type_synonym log_entry = "log_level \<times> extio_error \<times> string"

text \<open>
  The adapter. The options, the line buffer of \<open>ReadBuf\<close>, the MRT reader (\<open>None\<close> when
  there is none, otherwise its \<open>NoTags\<close>), the callback and the three inputs (references
  into the pipe, \<open>None\<close> for \<open>nil\<close>; \<open>Callback_dropped\<close> once \<open>Drop\<close> was called on the
  callback), the output channel (the buffers queued and not yet read, and whether it is
  closed), and what was logged.
\<close>

record Extio =
  opt_type :: "msg_type list"
  opt_raw :: bool
  opt_mrt :: bool
  opt_read :: bool
  opt_write :: bool
  opt_copy :: bool
  opt_noseq :: bool
  opt_notime :: bool
  opt_notags :: bool
  opt_pardon :: bool
  mrt :: "bool option"
  buf :: string
  Callback :: "nat option"
  Callback_dropped :: bool
  InputL :: "nat option"
  InputR :: "nat option"
  InputD :: "nat option"
  Output :: "string list"
  Output_closed :: bool
  log :: "log_entry list"

text \<open>The options of the stage's config store that \<open>Attach\<close> reads.\<close>

record extio_K =
  k_raw :: bool
  k_mrt :: bool
  k_type :: "string list"
  k_read :: bool
  k_write :: bool
  k_copy :: bool
  k_no_seq :: bool
  k_no_time :: bool
  k_no_tags :: bool
  k_pardon :: bool

text \<open>What \<open>Attach\<close> reads of the stage the adapter belongs to.\<close>

record extio_stage =
  st_IsBidir :: bool
  st_IsLast :: bool
  st_IsLeft :: bool
  st_Dir :: dir

text \<open>
  The loop of \<open>Attach\<close> over \<^verbatim>\<open>k.Strings("type")\<close>: empty entries are skipped, a
  canonical name or an integer from 0 to 255 is appended to \<open>opt_type\<close>, anything else
  ends \<open>Attach\<close> with the error of \<open>TypeString\<close>, wrapped.
\<close>

fun parse_types :: "'p lib \<Rightarrow> string list \<Rightarrow> msg_type list \<Rightarrow> extio_error + msg_type list" where
  "parse_types lib [] acc = Inr acc"
| "parse_types lib (v # vs) acc =
     (if length v = 0 then parse_types lib vs acc
      else
        (case TypeString lib v of
           Inr typ \<Rightarrow> parse_types lib vs (acc @ [typ])
         | Inl err \<Rightarrow>
             (case Atoi v of
                Some tnum \<Rightarrow>
                  if tnum \<ge> 0 \<and> tnum \<le> 255 then parse_types lib vs (acc @ [nat tnum])
                  else Inl (ErrType err)
              | None \<Rightarrow> Inl (ErrType err))))"

text \<open>
  The inputs \<open>Attach\<close> adds when the adapter is not write-only: two for a bidirectional
  stage, one otherwise, with \<open>InputL\<close>, \<open>InputR\<close> and \<open>InputD\<close> pointing at them; then the
  MRT reader.
\<close>

definition Attach_inputs :: "'p lib \<Rightarrow> extio_stage \<Rightarrow> Extio \<times> 'p \<Rightarrow> Extio \<times> 'p" where
  "Attach_inputs lib st ep =
     (case ep of (eio, p) \<Rightarrow>
        (let (eio1, p1) =
               (if st_IsBidir st then
                  (case AddInput lib DIR_L p of (l, pl) \<Rightarrow>
                     (case AddInput lib DIR_R pl of (r, pr) \<Rightarrow>
                        (eio\<lparr>InputL := Some l, InputR := Some r,
                              InputD := (if st_IsLast st then Some l else Some r)\<rparr>, pr)))
                else if st_IsLeft st then
                  (case AddInput lib DIR_L p of (l, pl) \<Rightarrow>
                     (eio\<lparr>InputL := Some l, InputR := Some l, InputD := Some l\<rparr>, pl))
                else
                  (case AddInput lib DIR_R p of (r, pr) \<Rightarrow>
                     (eio\<lparr>InputR := Some r, InputL := Some r, InputD := Some r\<rparr>, pr)))
         in (eio1\<lparr>mrt := Some (opt_notags eio1)\<rparr>, p1)))"

text \<open>
  The first half of \<open>Attach\<close>: the options are read from the config store, \<open>--type\<close>
  is parsed, and the options are checked.
\<close>

definition Attach_options :: "'p lib \<Rightarrow> extio_K \<Rightarrow> Extio \<Rightarrow> extio_error + Extio" where
  "Attach_options lib k eio0 =
     (let eio1 = eio0\<lparr>opt_raw := k_raw k, opt_mrt := k_mrt k, opt_read := k_read k,
                       opt_write := k_write k, opt_copy := k_copy k,
                       opt_noseq := k_no_seq k, opt_notime := k_no_time k,
                       opt_notags := k_no_tags k, opt_pardon := k_pardon k\<rparr>
      in case parse_types lib (k_type k) (opt_type eio1) of
           Inl e \<Rightarrow> Inl e
         | Inr types \<Rightarrow>
             (let eio2 = eio1\<lparr>opt_type := types\<rparr>
              in if (opt_read eio2 \<or> opt_write eio2) \<and> opt_read eio2 \<and> opt_write eio2
                 then Inl ErrReadWrite
                 else
                   (let eio3 = (if opt_read eio2 \<or> opt_write eio2
                                then eio2\<lparr>opt_copy := True\<rparr> else eio2)
                    in if opt_raw eio3 \<and> opt_mrt eio3 then Inl ErrRawMrt else Inr eio3)))"

text \<open>
  The second half of \<open>Attach\<close>: the inputs are added unless the adapter is write-only,
  the callback unless it is read-only.
\<close>

definition Attach_pipe :: "'p lib \<Rightarrow> extio_stage \<Rightarrow> Extio \<times> 'p \<Rightarrow> Extio \<times> 'p" where
  "Attach_pipe lib st ep =
     (case (if \<not> opt_write (fst ep) then Attach_inputs lib st ep else ep) of
        (eio4, p4) \<Rightarrow>
          if \<not> opt_read eio4 then
            (case OnMsg lib (st_Dir st) (opt_type eio4) p4 of
               (cb, p5) \<Rightarrow> (eio4\<lparr>Callback := Some cb\<rparr>, p5))
          else (eio4, p4))"

text \<open>\<open>Attach\<close>, on the adapter and the pipe.\<close>

definition Attach ::
  "'p lib \<Rightarrow> extio_stage \<Rightarrow> extio_K \<Rightarrow> Extio \<times> 'p \<Rightarrow> extio_error + (Extio \<times> 'p)" where
  "Attach lib st k ep =
     (case Attach_options lib k (fst ep) of
        Inl e \<Rightarrow> Inl e
      | Inr eio3 \<Rightarrow> Inr (Attach_pipe lib st (eio3, snd ep)))"

text \<open>
  \<open>checkMsg\<close>: the type filter, then the metadata the options overwrite. The message is
  passed by pointer, so the result is the answer and the message as it is left.
\<close>

definition checkMsg :: "'p lib \<Rightarrow> Extio \<Rightarrow> msg \<Rightarrow> bool \<times> msg" where
  "checkMsg lib eio m =
     (if length (opt_type eio) > 0 \<and> m_Type m \<notin> set (opt_type eio) then (False, m)
      else
        (let m1 = (if opt_noseq eio then m\<lparr>m_Seq := 0\<rparr> else m);
             m2 = (if opt_notime eio then m1\<lparr>m_Time := Now lib\<rparr> else m1);
             m3 = (if opt_notags eio then m2\<lparr>m_Tags := []\<rparr> else m2)
         in (True, m3)))"

text \<open>
  The \<open>check\<close> of \<open>ReadSingle\<close> and \<open>ReadBuf\<close>: \<open>checkMsg\<close>, and the caller's callback
  \<open>cb\<close> after it when there is one.
\<close>

definition check :: "'p lib \<Rightarrow> Extio \<Rightarrow> (msg \<Rightarrow> bool \<times> msg) option \<Rightarrow> msg \<Rightarrow> bool \<times> msg" where
  "check lib eio cb m =
     (case cb of
        None \<Rightarrow> checkMsg lib eio m
      | Some f \<Rightarrow>
          (case checkMsg lib eio m of
             (ok, m1) \<Rightarrow> if ok then f m1 else (False, m1)))"

text \<open>\<^verbatim>\<open>in.WriteMsg(m)\<close> through one of the adapter's input pointers.\<close>

definition write_input ::
  "'p lib \<Rightarrow> nat option \<Rightarrow> msg \<Rightarrow> Extio \<times> 'p \<Rightarrow> extio_error option outcome \<times> Extio \<times> 'p" where
  "write_input lib inp m ep =
     (case ep of (eio, p) \<Rightarrow>
        (case inp of
           None \<Rightarrow> (Panics ''nil pointer dereference'', eio, p)
         | Some i \<Rightarrow> (case WriteMsg lib i m p of (err, p1) \<Rightarrow> (Returns err, eio, p1))))"

text \<open>
  The end of \<open>ReadSingle\<close>, from \<^verbatim>\<open>// parse error?\<close> on: \<open>input\<close> is the buffer as it is
  by then, \<open>m\<close> the message parsed, \<open>parse_err\<close> the error so far.
\<close>

definition ReadSingle_finish ::
  "'p lib \<Rightarrow> (msg \<Rightarrow> bool \<times> msg) option \<Rightarrow> msg \<Rightarrow> extio_error option \<Rightarrow> Extio \<times> 'p
     \<Rightarrow> extio_error option outcome \<times> Extio \<times> 'p" where
  "ReadSingle_finish lib cb m parse_err ep =
     (case ep of (eio, p) \<Rightarrow>
        (case parse_err of
           Some e \<Rightarrow>
             if opt_pardon eio then (Returns None, eio, p)
             else (Returns (Some e),
                   eio\<lparr>log := log eio @ [(LogErr, e, ''input read single error'')]\<rparr>, p)
         | None \<Rightarrow>
             (case check lib eio cb m of
                (ok, m1) \<Rightarrow>
                  if \<not> ok then (Returns None, eio, p)
                  else
                    (case m_Dir m1 of
                       DIR_L \<Rightarrow> write_input lib (InputL eio) m1 (eio, p)
                     | DIR_R \<Rightarrow> write_input lib (InputR eio) m1 (eio, p)
                     | _ \<Rightarrow> write_input lib (InputD eio) m1 (eio, p)))))"

text \<open>The error of a raw or MRT parse: the codec's, or \<open>ErrLength\<close> on dangling bytes.\<close>

definition frame_error :: "string \<Rightarrow> int \<times> extio_error option \<Rightarrow> extio_error option" where
  "frame_error input r =
     (case r of (n, err) \<Rightarrow>
        (case err of
           Some e \<Rightarrow> Some e
         | None \<Rightarrow> if n \<noteq> int (length input) then Some ErrLength else None))"

text \<open>\<open>ReadSingle(buf, cb)\<close>; \<open>cb\<close> is \<open>None\<close> for \<open>nil\<close>.\<close>

definition ReadSingle ::
  "'p lib \<Rightarrow> string \<Rightarrow> (msg \<Rightarrow> bool \<times> msg) option \<Rightarrow> Extio \<times> 'p
     \<Rightarrow> extio_error option outcome \<times> Extio \<times> 'p" where
  "ReadSingle lib input cb ep =
     (case ep of (eio, p) \<Rightarrow>
        if opt_write eio then (Returns None, eio, p)
        else if opt_raw eio then
          (case FromBytes lib input GetMsg of
             (r, m) \<Rightarrow> ReadSingle_finish lib cb m (frame_error input r) (eio, p))
        else if opt_mrt eio then
          (case mrt_FromBytes lib input GetMsg of
             (r, m) \<Rightarrow>
               if snd r = Some ErrSub then (Returns None, eio, p)
               else ReadSingle_finish lib cb m (frame_error input r) (eio, p))
        else
          (let line = TrimSpace lib input
           in if length line = 0 \<or> hd line = CHR ''#'' then (Returns None, eio, p)
              else if hd line = CHR ''['' then
                (case FromJSON lib line GetMsg of
                   (err, m) \<Rightarrow>
                     ReadSingle_finish lib cb
                       (if m_Type m = INVALID then Use KEEPALIVE m else m) err (eio, p))
              else if hd line = CHR ''{'' then
                (case Update_FromJSON lib line (Use UPDATE GetMsg) of
                   (err, m) \<Rightarrow> ReadSingle_finish lib cb m err (eio, p))
              else ReadSingle_finish lib cb GetMsg (Some ErrFormat) (eio, p)))"

text \<open>The end of \<open>ReadBuf\<close>, from \<^verbatim>\<open>// parse error?\<close> on.\<close>

definition ReadBuf_finish ::
  "extio_error option \<Rightarrow> Extio \<times> 'p \<Rightarrow> extio_error option outcome \<times> Extio \<times> 'p" where
  "ReadBuf_finish parse_err ep =
     (case ep of (eio, p) \<Rightarrow>
        (case parse_err of
           Some e \<Rightarrow>
             if \<not> opt_pardon eio then
               (Returns (Some e),
                eio\<lparr>log := log eio @ [(LogErr, e, ''input read stream error'')]\<rparr>, p)
             else (Returns None, eio, p)
         | None \<Rightarrow> (Returns None, eio, p)))"

text \<open>
  The text loop of \<open>ReadBuf\<close> on the line buffer \<open>b\<close> (\<^verbatim>\<open>eio.buf\<close>): while there is a
  newline, the bytes up to and with it are taken off the buffer and given to
  \<open>ReadSingle\<close>, whose error ends the loop.
\<close>

function ReadBuf_lines ::
  "'p lib \<Rightarrow> (msg \<Rightarrow> bool \<times> msg) option \<Rightarrow> string \<Rightarrow> Extio \<times> 'p
     \<Rightarrow> extio_error option outcome \<times> Extio \<times> 'p" where
  "ReadBuf_lines lib cb b ep =
     (if IndexByte b (CHR 0x0A) < 0 then (Returns None, (fst ep)\<lparr>buf := b\<rparr>, snd ep)
      else
        (case ReadSingle lib (take (nat (IndexByte b (CHR 0x0A) + 1)) b) cb
                ((fst ep)\<lparr>buf := drop (nat (IndexByte b (CHR 0x0A) + 1)) b\<rparr>, snd ep) of
           (Returns None, ep1) \<Rightarrow>
             ReadBuf_lines lib cb (drop (nat (IndexByte b (CHR 0x0A) + 1)) b) ep1
         | (r, ep1) \<Rightarrow> (r, ep1)))"
  by pat_completeness auto
termination
proof (relation "measure (\<lambda>(lib, cb, b, ep). length b)")
  show "wf (measure (\<lambda>(lib, cb, b, ep). length b))"
    by simp
next
  fix lib :: "'p lib" and cb b and ep :: "Extio \<times> 'p" and x xa y x2
  assume "\<not> IndexByte b (CHR 0x0A) < 0"
  then have "b \<noteq> []"
    by auto
  then show "((lib, cb, drop (nat (IndexByte b (CHR 0x0A) + 1)) b, y), lib, cb, b, ep)
               \<in> measure (\<lambda>(lib, cb, b, ep). length b)"
    using \<open>\<not> IndexByte b (CHR 0x0A) < 0\<close> by simp
qed

text \<open>\<open>ReadBuf(buf, cb)\<close>; \<open>cb\<close> is \<open>None\<close> for \<open>nil\<close>.\<close>

definition ReadBuf ::
  "'p lib \<Rightarrow> string \<Rightarrow> (msg \<Rightarrow> bool \<times> msg) option \<Rightarrow> Extio \<times> 'p
     \<Rightarrow> extio_error option outcome \<times> Extio \<times> 'p" where
  "ReadBuf lib input cb ep =
     (case ep of (eio, p) \<Rightarrow>
        if opt_write eio then (Returns None, eio, p)
        else if opt_raw eio then
          (case InputD eio of
             None \<Rightarrow> (Panics ''nil pointer dereference'', eio, p)
           | Some d \<Rightarrow>
               (case WriteFunc lib d input (check lib eio cb) p of
                  (r, p1) \<Rightarrow>
                    if snd r = Some ErrUnexpectedEOF then (Returns None, eio, p1)
                    else ReadBuf_finish (snd r) (eio, p1)))
        else if opt_mrt eio then
          (case mrt eio of
             None \<Rightarrow> (Panics ''nil pointer dereference'', eio, p)
           | Some notags \<Rightarrow>
               (case mrt_WriteFunc lib input (check lib eio cb) p of
                  (r, p1) \<Rightarrow>
                    if snd r = Some ErrUnexpectedEOF then (Returns None, eio, p1)
                    else ReadBuf_finish (snd r) (eio, p1)))
        else ReadBuf_lines lib cb (buf eio @ input) (eio, p))"

text \<open>
  A reader \<^verbatim>\<open>io.Reader\<close>: from its state and the length of the buffer it is given,
  \<open>Read\<close> gives the bytes it has put in the buffer, an error or none, and the reader's
  next state. The number \<open>n\<close> it returns is the number of these bytes.
\<close>

type_synonym 'r reader = "'r \<Rightarrow> nat \<Rightarrow> (string \<times> extio_error option) \<times> 'r"

text \<open>
  One turn of the loop of \<open>ReadStream\<close>, with a buffer of \<open>l\<close> bytes: either the call
  ends (\<open>Inl\<close>), or the loop goes on with the buffer as long as it was or twice as long.
\<close>

definition ReadStream_step ::
  "'p lib \<Rightarrow> 'r reader \<Rightarrow> (msg \<Rightarrow> bool \<times> msg) option \<Rightarrow> nat \<times> 'r \<times> Extio \<times> 'p
     \<Rightarrow> (extio_error option outcome \<times> 'r \<times> Extio \<times> 'p) + (nat \<times> 'r \<times> Extio \<times> 'p)" where
  "ReadStream_step lib rd cb st =
     (case st of (l, r, ep) \<Rightarrow>
        (case rd r l of
           ((bytes, err), r1) \<Rightarrow>
             (let n = length bytes
              in if l < n then Inl (Panics ''slice bounds out of range'', r1, ep)
                 else
                   (case (if n > 0 then ReadBuf lib bytes cb ep else (Returns None, ep)) of
                      (Panics x, ep1) \<Rightarrow> Inl (Panics x, r1, ep1)
                    | (Returns (Some e), ep1) \<Rightarrow> Inl (Returns (Some e), r1, ep1)
                    | (Returns None, ep1) \<Rightarrow>
                        (case err of
                           Some e \<Rightarrow>
                             if e = EOF then Inl (Returns None, r1, ep1)
                             else Inl (Returns (Some e), r1, ep1)
                         | None \<Rightarrow>
                             if n > l div 2 \<and> l \<le> 4 * 1024 * 1024
                             then Inr (l * 2, r1, ep1)
                             else Inr (l, r1, ep1))))))"

text \<open>
  The state of the loop at the start of its turn number \<open>k\<close> (from 0), when the call
  has not ended before; and the loop itself, which gives \<open>None\<close> when the call has not
  ended within \<open>fuel\<close> turns.
\<close>

fun ReadStream_at ::
  "'p lib \<Rightarrow> 'r reader \<Rightarrow> (msg \<Rightarrow> bool \<times> msg) option \<Rightarrow> nat \<Rightarrow> nat \<times> 'r \<times> Extio \<times> 'p
     \<Rightarrow> (nat \<times> 'r \<times> Extio \<times> 'p) option" where
  "ReadStream_at lib rd cb 0 st = Some st"
| "ReadStream_at lib rd cb (Suc k) st =
     (case ReadStream_step lib rd cb st of
        Inl res \<Rightarrow> None
      | Inr st1 \<Rightarrow> ReadStream_at lib rd cb k st1)"

fun ReadStream_loop ::
  "'p lib \<Rightarrow> 'r reader \<Rightarrow> (msg \<Rightarrow> bool \<times> msg) option \<Rightarrow> nat \<Rightarrow> nat \<times> 'r \<times> Extio \<times> 'p
     \<Rightarrow> (extio_error option outcome \<times> 'r \<times> Extio \<times> 'p) option" where
  "ReadStream_loop lib rd cb 0 st = None"
| "ReadStream_loop lib rd cb (Suc fuel) st =
     (case ReadStream_step lib rd cb st of
        Inl res \<Rightarrow> Some res
      | Inr st1 \<Rightarrow> ReadStream_loop lib rd cb fuel st1)"

text \<open>\<open>ReadStream(rd, cb)\<close>: the loop, from a buffer of 64 KiB.\<close>

definition ReadStream ::
  "'p lib \<Rightarrow> 'r reader \<Rightarrow> (msg \<Rightarrow> bool \<times> msg) option \<Rightarrow> nat \<Rightarrow> 'r \<times> Extio \<times> 'p
     \<Rightarrow> (extio_error option outcome \<times> 'r \<times> Extio \<times> 'p) option" where
  "ReadStream lib rd cb fuel rep = ReadStream_loop lib rd cb fuel (64 * 1024, rep)"

text \<open>
  Modelled from the spec: \<open>send_safe\<close>, the guarded send on the output channel, whose
  code is not among the sources. "Send to a closed channel returns false rather than
  panicking"; otherwise the buffer is queued and the answer is true. (A full channel
  makes the sender wait; waiting is not modelled.)
\<close>

definition send_safe :: "Extio \<Rightarrow> string \<Rightarrow> bool \<times> Extio" where
  "send_safe eio bb =
     (if Output_closed eio then (False, eio)
      else (True, eio\<lparr>Output := Output eio @ [bb]\<rparr>))"

text \<open>
  The end of \<open>SendMsg\<close>, from \<^verbatim>\<open>if err != nil\<close> on: \<open>err\<close> is the error of the
  serialization, \<open>bb\<close> the bytes in the buffer.
\<close>

definition SendMsg_finish ::
  "extio_error option \<Rightarrow> string \<Rightarrow> msg \<Rightarrow> Extio \<Rightarrow> bool outcome \<times> msg \<times> Extio" where
  "SendMsg_finish err bb m eio =
     (case err of
        Some e \<Rightarrow> (Returns True, m, eio\<lparr>log := log eio @ [(LogWarn, e, ''extio write error'')]\<rparr>)
      | None \<Rightarrow>
          (case send_safe eio bb of
             (sent, eio1) \<Rightarrow>
               if \<not> sent then (Returns True, m, eio1\<lparr>Callback_dropped := True\<rparr>)
               else (Returns True, m, eio1)))"

text \<open>
  \<open>SendMsg(m)\<close>: the answer or the panic, the message as it is left, and the adapter.
\<close>

definition SendMsg :: "'p lib \<Rightarrow> msg \<Rightarrow> Extio \<Rightarrow> bool outcome \<times> msg \<times> Extio" where
  "SendMsg lib m eio =
     (if opt_read eio then (Returns True, m, eio)
      else
        (let m1 = (if \<not> opt_copy eio then m\<lparr>m_drop := True\<rparr> else m)
         in if opt_raw eio then
              (case Marshal lib m1 of
                 (err, wire) \<Rightarrow>
                   (let m2 = m1\<lparr>m_Data := wire\<rparr>
                    in case err of
                         Some e \<Rightarrow> SendMsg_finish (Some e) [] m2 eio
                       | None \<Rightarrow>
                           (case WriteTo lib m2 of
                              (err2, bb) \<Rightarrow> SendMsg_finish err2 bb m2 eio)))
            else if opt_mrt eio then (Panics ''TODO'', m1, eio)
            else SendMsg_finish None (GetJSON lib m1) m1 eio))"

text \<open>
  \<open>OutputClose\<close> and \<open>InputClose\<close>. Closing the inputs is the pipe's business, given as
  \<open>Close\<close>; the two pointers are not \<open>nil\<close> once \<open>Attach\<close> has added the inputs.
\<close>

definition OutputClose :: "Extio \<Rightarrow> Extio" where
  "OutputClose eio = eio\<lparr>opt_read := True, Callback_dropped := True, Output_closed := True\<rparr>"

definition InputClose :: "(nat \<Rightarrow> 'p \<Rightarrow> 'p) \<Rightarrow> Extio \<times> 'p \<Rightarrow> unit outcome \<times> Extio \<times> 'p" where
  "InputClose Close ep =
     (case ep of (eio, p) \<Rightarrow>
        (case (InputL eio, InputR eio) of
           (Some l, Some r) \<Rightarrow> (Returns (), eio\<lparr>opt_write := True\<rparr>, Close r (Close l p))
         | _ \<Rightarrow> (Panics ''nil pointer dereference'', eio\<lparr>opt_write := True\<rparr>, p)))"

subsection \<open>A codec and a pipe to run the adapter on\<close>

text \<open>
  \<^verbatim>\<open>bytes.TrimSpace\<close> on ASCII text: the leading and trailing tabs, line feeds,
  vertical tabs, form feeds, carriage returns and spaces are cut off.
\<close>

definition is_space :: "char \<Rightarrow> bool" where
  "is_space c = (c \<in> set [CHR 0x09, CHR 0x0A, CHR 0x0B, CHR 0x0C, CHR 0x0D, CHR 0x20])"

definition TrimSpace_ascii :: "string \<Rightarrow> string" where
  "TrimSpace_ascii s = rev (dropWhile is_space (rev (dropWhile is_space s)))"

text \<open>
  A pipe that counts what is added to it and records what is written to its inputs, and
  a codec that takes every frame as one message, every text that ends with its closing
  bracket as JSON, and marshals every message but an \<open>INVALID\<close> one.
\<close>

type_synonym example_pipe = "nat \<times> (nat \<times> msg) list"

definition example_lib :: "example_pipe lib" where
  "example_lib =
     \<lparr>TrimSpace = TrimSpace_ascii,
      FromBytes = (\<lambda>b m. ((int (length b), None), m\<lparr>m_Type := UPDATE, m_Data := b\<rparr>)),
      mrt_FromBytes = (\<lambda>b m. ((int (length b), None), m\<lparr>m_Type := UPDATE, m_Data := b\<rparr>)),
      FromJSON = (\<lambda>b m. if last b = CHR 0x5D then (None, m\<lparr>m_Data := b\<rparr>)
                          else (Some (ErrOther ''json''), m)),
      Update_FromJSON = (\<lambda>b m. if last b = CHR 0x7D then (None, m\<lparr>m_Data := b\<rparr>)
                                 else (Some (ErrOther ''json''), m)),
      WriteMsg = (\<lambda>i m p. (None, (fst p, snd p @ [(i, m)]))),
      WriteFunc = (\<lambda>i b chk p. ((int (length b), None), p)),
      mrt_WriteFunc = (\<lambda>b chk p. ((int (length b), None), p)),
      Now = 0,
      Marshal = (\<lambda>m. (if m_Type m = INVALID then Some (ErrOther ''marshal'') else None,
                        m_Data m)),
      WriteTo = (\<lambda>m. (None, m_Data m)),
      GetJSON = m_Data,
      TypeString = (\<lambda>v. if v = ''OPEN'' then Inr OPEN
                          else if v = ''UPDATE'' then Inr UPDATE
                          else if v = ''KEEPALIVE'' then Inr KEEPALIVE
                          else Inl (ErrOther ''type'')),
      AddInput = (\<lambda>d p. (fst p, (Suc (fst p), snd p))),
      OnMsg = (\<lambda>d ts p. (fst p, (Suc (fst p), snd p)))\<rparr>"

text \<open>
  A new adapter (\<open>NewExtio\<close>: nothing set, an open and empty output channel), options
  with nothing set, and an adapter in text mode with one input for both directions.
\<close>

definition new_Extio :: Extio where
  "new_Extio =
     \<lparr>opt_type = [], opt_raw = False, opt_mrt = False, opt_read = False, opt_write = False,
      opt_copy = False, opt_noseq = False, opt_notime = False, opt_notags = False,
      opt_pardon = False, mrt = None, buf = [], Callback = None, Callback_dropped = False,
      InputL = None, InputR = None, InputD = None, Output = [], Output_closed = False,
      log = []\<rparr>"

definition no_K :: extio_K where
  "no_K = \<lparr>k_raw = False, k_mrt = False, k_type = [], k_read = False, k_write = False,
           k_copy = False, k_no_seq = False, k_no_time = False, k_no_tags = False,
           k_pardon = False\<rparr>"

definition right_stage :: extio_stage where
  "right_stage = \<lparr>st_IsBidir = False, st_IsLast = False, st_IsLeft = False, st_Dir = DIR_R\<rparr>"

definition text_Extio :: Extio where
  "text_Extio = new_Extio\<lparr>mrt := Some False, Callback := Some 1,
                           InputL := Some 0, InputR := Some 0, InputD := Some 0\<rparr>"

text \<open>A reader that fills the buffer it is given, every time.\<close>

definition full_reader :: "unit reader" where
  "full_reader r l = ((replicate l (CHR 0x00), None), r)"

section \<open>Properties\<close>

subsection \<open>Event names\<close>

lemma IndexByte_ge: "- 1 \<le> IndexByte s c"
  by (induction s) (auto simp: Let_def)

lemma IndexByte_neg_iff: "IndexByte s c < 0 \<longleftrightarrow> c \<notin> set s"
proof (induction s)
  case Nil
  then show ?case by simp
next
  case (Cons x xs)
  then show ?case
    using IndexByte_ge [of xs c] by (auto simp: Let_def)
qed

lemma IndexByte_pos_iff: "0 < IndexByte s c \<longleftrightarrow> c \<in> set s \<and> hd s \<noteq> c"
proof (cases s)
  case Nil
  then show ?thesis by simp
next
  case (Cons x xs)
  have "0 \<le> IndexByte xs c \<longleftrightarrow> c \<in> set xs"
    using IndexByte_neg_iff [of xs c] by linarith
  then show ?thesis
    using Cons by (auto simp: Let_def)
qed

text \<open>
  C8, as the code has it. For every configured event name \<open>et\<close>, the entry of the result
  at the same position is: \<open>bgpfix/pipe.\<close> followed by the upper-cased name when \<open>et\<close> has
  no \<open>.\<close> and no \<open>/\<close>; \<open>bgpfix/\<close> followed by \<open>et\<close> when \<open>et\<close> has a \<open>.\<close>, does not
  start with it, and has no \<open>/\<close>; and \<open>et\<close> itself when \<open>et\<close> has a \<open>/\<close> and does not
  start with it. A name that starts with \<open>/\<close> counts as one without \<open>/\<close>, and a name
  that starts with \<open>.\<close> as one without \<open>.\<close>, whatever follows: the last conjunct gives the
  entry for every name.
\<close>

theorem cfgEvents_rewrite:
  "i < length events \<Longrightarrow>
     length (cfgEvents ToUpper events) = length events \<and>
     (CHR ''.'' \<notin> set (events ! i) \<and> CHR ''/'' \<notin> set (events ! i) \<longrightarrow>
        cfgEvents ToUpper events ! i = ''bgpfix/pipe.'' @ ToUpper (events ! i)) \<and>
     (CHR ''.'' \<in> set (events ! i) \<and> hd (events ! i) \<noteq> CHR ''.'' \<and>
      CHR ''/'' \<notin> set (events ! i) \<longrightarrow>
        cfgEvents ToUpper events ! i = ''bgpfix/'' @ events ! i) \<and>
     (CHR ''/'' \<in> set (events ! i) \<and> hd (events ! i) \<noteq> CHR ''/'' \<longrightarrow>
        cfgEvents ToUpper events ! i = events ! i) \<and>
     cfgEvents ToUpper events ! i =
       (if CHR ''/'' \<in> set (events ! i) \<and> hd (events ! i) \<noteq> CHR ''/'' then events ! i
        else if CHR ''.'' \<in> set (events ! i) \<and> hd (events ! i) \<noteq> CHR ''.''
          then ''bgpfix/'' @ events ! i
        else ''bgpfix/pipe.'' @ ToUpper (events ! i))"
  by (auto simp: cfgEvents_def cfgEvent_def Let_def IndexByte_pos_iff)

theorem cfgEvents_rewrite_witness:
  "cfgEvents ToUpper_ascii [''start'', ''msg.update'', ''mylib/pkg.EV''] =
     [''bgpfix/pipe.START'', ''bgpfix/msg.update'', ''mylib/pkg.EV'']"
  using cfgEvents_rewrite [of 0 "[''start'', ''msg.update'', ''mylib/pkg.EV'']" ToUpper_ascii]
        cfgEvents_rewrite [of 1 "[''start'', ''msg.update'', ''mylib/pkg.EV'']" ToUpper_ascii]
        cfgEvents_rewrite [of 2 "[''start'', ''msg.update'', ''mylib/pkg.EV'']" ToUpper_ascii]
  by (simp add: cfgEvents_def cfgEvent_def ToUpper_ascii_def upper_byte_def Let_def)

text \<open>
  The claim as written fails where the first \<open>.\<close> or \<open>/\<close> is the first character:
  \<open>/x\<close> contains a \<open>/\<close> and is rewritten as a bare name, and \<open>.x\<close> has a \<open>.\<close> and no
  \<open>/\<close> and is rewritten as a bare name too.
\<close>

theorem cfgEvents_leading_counterexample:
  "CHR ''/'' \<in> set ''/x'' \<and> cfgEvents ToUpper_ascii [''/x''] = [''bgpfix/pipe./X''] \<and>
   CHR ''.'' \<in> set ''.x'' \<and> CHR ''/'' \<notin> set ''.x'' \<and>
   cfgEvents ToUpper_ascii [''.x''] = [''bgpfix/pipe..X'']"
  by (simp add: cfgEvents_def cfgEvent_def ToUpper_ascii_def upper_byte_def Let_def)

subsection \<open>Reversing the pipe\<close>

lemma reverse_fix_length: "length (reverse_fix k ss) = length ss"
  by (induction k ss rule: reverse_fix.induct) auto

lemma reverse_fix_nth:
  "i < length ss \<Longrightarrow>
     reverse_fix k ss ! i =
       map_option (\<lambda>s. s\<lparr>Index := k + int i,
                           K := (K s)\<lparr>k_left := k_right (K s), k_right := k_left (K s)\<rparr>\<rparr>) (ss ! i)"
proof (induction k ss arbitrary: i rule: reverse_fix.induct)
  case (1 idx)
  then show ?case by simp
next
  case (2 idx ss)
  then show ?case by (cases i) (auto simp: algebra_simps)
next
  case (3 idx s ss)
  then show ?case by (cases i) (auto simp: algebra_simps)
qed

lemma reverse_twice_nth:
  assumes "i < Suc (length rest)"
  shows "reverse_fix 0 (hd (reverse_fix 0 (s0 # rev rest)) # rev (tl (reverse_fix 0 (s0 # rev rest)))) ! i
           = map_option (\<lambda>s. s\<lparr>Index := int i\<rparr>) ((s0 # rest) ! i)"
proof -
  let ?once = "reverse_fix 0 (s0 # rev rest)"
  let ?arg = "hd ?once # rev (tl ?once)"
  have len: "length ?once = Suc (length rest)"
    by (simp add: reverse_fix_length)
  have larg: "length ?arg = Suc (length rest)"
    using len by simp
  have once_nth: "\<And>j. j < Suc (length rest) \<Longrightarrow>
      ?once ! j = map_option (\<lambda>s. s\<lparr>Index := int j,
                           K := (K s)\<lparr>k_left := k_right (K s), k_right := k_left (K s)\<rparr>\<rparr>) ((s0 # rev rest) ! j)"
    using reverse_fix_nth [of _ "s0 # rev rest" 0] by simp
  have ne: "?once \<noteq> []" using len by auto
  have arg_nth: "?arg ! i = map_option (\<lambda>s. s\<lparr>Index := (if i = 0 then 0 else int (length rest - i) + 1),
                           K := (K s)\<lparr>k_left := k_right (K s), k_right := k_left (K s)\<rparr>\<rparr>) ((s0 # rest) ! i)"
  proof (cases i)
    case 0
    then show ?thesis using once_nth [of 0] ne by (simp add: hd_conv_nth)
  next
    case (Suc j)
    then have j: "j < length rest" using assms by simp
    have lt: "length (tl ?once) = length rest" using len by simp
    have "?arg ! i = rev (tl ?once) ! j" using Suc by simp
    also have "\<dots> = tl ?once ! (length rest - Suc j)"
      using j lt by (simp add: rev_nth)
    also have "\<dots> = ?once ! Suc (length rest - Suc j)"
      using j lt by (simp add: nth_tl)
    also have "\<dots> = map_option (\<lambda>s. s\<lparr>Index := int (Suc (length rest - Suc j)),
                           K := (K s)\<lparr>k_left := k_right (K s), k_right := k_left (K s)\<rparr>\<rparr>)
                        ((s0 # rev rest) ! Suc (length rest - Suc j))"
      using j by (intro once_nth) simp
    also have "(s0 # rev rest) ! Suc (length rest - Suc j) = rest ! j"
      using j by (simp add: rev_nth Suc_diff_Suc)
    finally show ?thesis using Suc j by (simp add: Suc_diff_Suc)
  qed
  have "reverse_fix 0 ?arg ! i = map_option (\<lambda>s. s\<lparr>Index := int i,
                           K := (K s)\<lparr>k_left := k_right (K s), k_right := k_left (K s)\<rparr>\<rparr>) (?arg ! i)"
    using reverse_fix_nth [of i ?arg 0] larg assms by simp
  then show ?thesis
    unfolding arg_nth by (cases "(s0 # rest) ! i") simp_all
qed

text \<open>
  C3. Running the \<open>--reverse\<close> block of \<open>Attach\<close> twice on a stage list (which is never
  empty there) gives a list of the same length with the same stage in every slot: each
  stage is as it was, its \<open>left\<close> and \<open>right\<close> options included, with its position as
  \<open>Index\<close>. Where every stage was indexed by its position, as \<open>AddStage\<close> leaves it,
  the list is the one started from.
\<close>

theorem Attach_reverse_twice:
  "Stages \<noteq> [] \<Longrightarrow>
     (\<exists>once twice.
        Attach_reverse True Stages = Some once \<and> Attach_reverse True once = Some twice \<and>
        length twice = length Stages \<and>
        (\<forall>i < length Stages. twice ! i = map_option (\<lambda>s. s\<lparr>Index := int i\<rparr>) (Stages ! i)) \<and>
        ((\<forall>i < length Stages. \<forall>s. Stages ! i = Some s \<longrightarrow> Index s = int i) \<longrightarrow> twice = Stages))"
proof -
  assume "Stages \<noteq> []"
  then obtain s0 rest where St: "Stages = s0 # rest" by (cases Stages) auto
  let ?once = "reverse_fix 0 (s0 # rev rest)"
  let ?twice = "reverse_fix 0 (hd ?once # rev (tl ?once))"
  have len1: "length ?once = Suc (length rest)" by (simp add: reverse_fix_length)
  then have ne: "?once \<noteq> []" by auto
  have a1: "Attach_reverse True Stages = Some ?once"
    by (simp add: Attach_reverse_def St)
  have a2: "Attach_reverse True ?once = Some ?twice"
    using ne unfolding Attach_reverse_def by (cases ?once) simp_all
  have len2: "length ?twice = length Stages"
    using len1 by (simp add: reverse_fix_length St)
  have nth: "\<forall>i < length Stages. ?twice ! i = map_option (\<lambda>s. s\<lparr>Index := int i\<rparr>) (Stages ! i)"
    using reverse_twice_nth [of _ rest s0] by (simp add: St)
  have same: "?twice = Stages" if ix: "\<forall>i < length Stages. \<forall>s. Stages ! i = Some s \<longrightarrow> Index s = int i"
  proof (rule nth_equalityI)
    show "length ?twice = length Stages" by (rule len2)
  next
    fix i assume "i < length ?twice"
    then have i: "i < length Stages" using len2 by simp
    show "?twice ! i = Stages ! i"
    proof (cases "Stages ! i")
      case None
      then show ?thesis using nth i by simp
    next
      case (Some s)
      then have "Index s = int i" using ix i by blast
      then show ?thesis using nth i Some by simp
    qed
  qed
  show ?thesis
    using a1 a2 len2 nth same by blast
qed

theorem Attach_reverse_twice_witness:
  "Attach_reverse True
     [None, Some (example_stage 1 ''a'' True False [] no_options),
      Some (example_stage 2 ''b'' False False [] no_options),
      Some (example_stage 3 ''c'' False True [] no_options)] =
   Some [None, Some (example_stage 1 ''c'' True False [] no_options),
      Some (example_stage 2 ''b'' False False [] no_options),
      Some (example_stage 3 ''a'' False True [] no_options)] \<and>
   Attach_reverse True
     [None, Some (example_stage 1 ''c'' True False [] no_options),
      Some (example_stage 2 ''b'' False False [] no_options),
      Some (example_stage 3 ''a'' False True [] no_options)] =
   Some [None, Some (example_stage 1 ''a'' True False [] no_options),
      Some (example_stage 2 ''b'' False False [] no_options),
      Some (example_stage 3 ''c'' False True [] no_options)]"
  using Attach_reverse_twice [of "[None, Some (example_stage 1 ''a'' True False [] no_options),
      Some (example_stage 2 ''b'' False False [] no_options),
      Some (example_stage 3 ''c'' False True [] no_options)]"]
  by (simp add: Attach_reverse_def example_stage_def)


subsection \<open>Attaching a stage: direction\<close>

lemma attach_direction_flags:
  "attach_direction s = Inr s1 \<Longrightarrow>
     IsFirst s1 = IsFirst s \<and> IsLast s1 = IsLast s \<and> Options s1 = Options s \<and> K s1 = K s
     \<and> Index s1 = Index s \<and> Name s1 = Name s"
  by (auto simp: attach_direction_def Let_def split: if_splits)

lemma attach_Dir_flags:
  "IsFirst (attach_Dir s) = IsFirst s \<and> IsLast (attach_Dir s) = IsLast s \<and>
   IsLeft (attach_Dir s) = IsLeft s \<and> IsRight (attach_Dir s) = IsRight s \<and>
   Options (attach_Dir s) = Options s \<and> K (attach_Dir s) = K s \<and>
   Index (attach_Dir s) = Index s \<and> Name (attach_Dir s) = Name s \<and>
   Dir (attach_Dir s) = (if IsLeft s \<and> IsRight s then DIR_LR else if IsLeft s then DIR_L else DIR_R)"
  by (simp add: attach_Dir_def)

lemma attach_fix_flags:
  "attach_fix Stages cbs hds ins s po = Inr (s', po') \<Longrightarrow>
     IsFirst s' = IsFirst s \<and> IsLast s' = IsLast s \<and> IsLeft s' = IsLeft s \<and>
     IsRight s' = IsRight s \<and> Options s' = Options s \<and> Dir s' = Dir s \<and> K s' = K s \<and>
     Index s' = Index s"
  by (auto simp: attach_fix_def Let_def split: if_splits sum.splits prod.splits)

lemma attach_to_inputs_Inr:
  assumes "attach_to_inputs n Stages A po s = Inr (s', po')"
  obtains s1 po1 where "attach_direction (attach_position n s) = Inr s1"
    and "A (attach_Dir s1) po = Inr po1"
    and "IsFirst s' = IsFirst s1" "IsLast s' = IsLast s1" "IsLeft s' = IsLeft s1"
        "IsRight s' = IsRight s1" "Options s' = Options s1" "K s' = K s1" "Index s' = Index s1"
        "Dir s' = (if IsLeft s1 \<and> IsRight s1 then DIR_LR else if IsLeft s1 then DIR_L else DIR_R)"
    and "0 < Index s1 \<Longrightarrow>
           attach_fix Stages (length (Callbacks po)) (length (Handlers po)) (length (Inputs po))
             (attach_Dir s1) po1 = Inr (s', po')"
proof -
  from assms obtain s1 where s1: "attach_direction (attach_position n s) = Inr s1"
    by (auto simp: attach_to_inputs_def split: sum.splits)
  from assms s1 obtain po1 where po1: "A (attach_Dir s1) po = Inr po1"
    by (auto simp: attach_to_inputs_def Let_def split: sum.splits)
  show thesis
  proof (cases "0 < Index s1")
    case True
    then have fx: "attach_fix Stages (length (Callbacks po)) (length (Handlers po)) (length (Inputs po))
             (attach_Dir s1) po1 = Inr (s', po')"
      using assms s1 po1 by (simp add: attach_to_inputs_def Let_def attach_Dir_flags)
    show ?thesis
      using that [OF s1 po1] attach_fix_flags [OF fx] fx by (simp add: attach_Dir_flags)
  next
    case False
    then have "s' = attach_Dir s1"
      using assms s1 po1 by (simp add: attach_to_inputs_def Let_def attach_Dir_flags)
    then show ?thesis
      using that [OF s1 po1] False by (simp add: attach_Dir_flags)
  qed
qed

lemma attach_direction_Inl:
  "attach_direction s = Inl e \<Longrightarrow>
     e = ErrLR \<and> k_left (K s) \<and> k_right (K s) \<and> \<not> Bidir (Options s)"
  by (simp add: attach_direction_def Let_def split: if_splits)

lemma in_filter_Inl: "in_filter i Stages v = Inl e \<Longrightarrow> e = ErrInject v"
  by (simp add: in_filter_def Let_def split: if_splits)

lemma attach_fix_Inl:
  "attach_fix Stages cbs hds ins s po = Inl e \<Longrightarrow> e \<noteq> ErrLR"
proof -
  assume a: "attach_fix Stages cbs hds ins s po = Inl e"
  show ?thesis
  proof (cases "in_filter (Index s) Stages (k_in (K s))")
    case (Inl x)
    then show ?thesis
      using a in_filter_Inl [OF Inl] by (auto simp: attach_fix_def Let_def split: if_splits)
  next
    case (Inr y)
    then show ?thesis
      using a by (cases y) (auto simp: attach_fix_def Let_def split: if_splits)
  qed
qed

lemma attach_to_inputs_ErrLR:
  assumes "attach_to_inputs n Stages A po s = Inl ErrLR" and "\<forall>s1. A s1 po \<noteq> Inl ErrLR"
  shows "k_left (K s) \<and> k_right (K s) \<and> \<not> Bidir (Options s)"
proof (cases "attach_direction (attach_position n s)")
  case (Inl e)
  then show ?thesis
    using attach_direction_Inl [OF Inl] by (simp add: attach_position_def split: if_splits)
next
  case (Inr s1)
  show ?thesis
  proof (cases "A (attach_Dir s1) po")
    case (Inl e)
    then show ?thesis using assms Inr by (simp add: attach_to_inputs_def Let_def)
  next
    case po1: (Inr po1)
    then show ?thesis
      using assms Inr attach_fix_Inl [of Stages _ _ _ "attach_Dir s1" po1 ErrLR]
      by (auto simp: attach_to_inputs_def Let_def split: if_splits)
  qed
qed

lemma attach_to_inputs_left_right:
  "(k_left (K s) \<and> k_right (K s) \<and> \<not> Bidir (Options s) \<longrightarrow>
      attach_to_inputs n Stages A po s = Inl ErrLR) \<and>
   (attach_to_inputs n Stages A po s = Inl ErrLR \<and> (\<forall>s1. A s1 po \<noteq> Inl ErrLR) \<longrightarrow>
      k_left (K s) \<and> k_right (K s) \<and> \<not> Bidir (Options s)) \<and>
   (attach_to_inputs n Stages A po s = Inr (s', po') \<and> \<not> k_left (K s) \<and> \<not> k_right (K s) \<longrightarrow>
      IsRight s' = (\<not> (IsLast s' \<and> IsProducer (Options s')) \<and>
                    \<not> (IsFirst s' \<and> \<not> IsProducer (Options s'))) \<and>
      IsLeft s' = (\<not> IsRight s') \<and>
      Dir s' = (if IsRight s' then DIR_R else DIR_L) \<and>
      IsFirst s' = (IsFirst s \<or> Index s = 1) \<and>
      IsLast s' = (IsLast s \<or> (Index s \<noteq> 1 \<and> Index s = n)))"
proof (intro conjI impI)
  assume "k_left (K s) \<and> k_right (K s) \<and> \<not> Bidir (Options s)"
  then show "attach_to_inputs n Stages A po s = Inl ErrLR"
    by (simp add: attach_to_inputs_def attach_direction_def attach_position_def Let_def)
next
  assume a: "attach_to_inputs n Stages A po s = Inl ErrLR \<and> (\<forall>s1. A s1 po \<noteq> Inl ErrLR)"
  show "k_left (K s)" "k_right (K s)" "\<not> Bidir (Options s)"
    using attach_to_inputs_ErrLR [of n Stages A po s] a by blast+
next
  assume a: "attach_to_inputs n Stages A po s = Inr (s', po') \<and> \<not> k_left (K s) \<and> \<not> k_right (K s)"
  then have att: "attach_to_inputs n Stages A po s = Inr (s', po')" and nl: "\<not> k_left (K s)" and nr: "\<not> k_right (K s)"
    by auto
  from att obtain s1 where s1: "attach_direction (attach_position n s) = Inr s1"
    and fl: "IsFirst s' = IsFirst s1" "IsLast s' = IsLast s1" "IsLeft s' = IsLeft s1"
        "IsRight s' = IsRight s1" "Options s' = Options s1"
        "Dir s' = (if IsLeft s1 \<and> IsRight s1 then DIR_LR else if IsLeft s1 then DIR_L else DIR_R)"
    by (rule attach_to_inputs_Inr) blast
  have d: "IsRight s1 = (\<not> (IsLast s1 \<and> IsProducer (Options s1)) \<and>
                    \<not> (IsFirst s1 \<and> \<not> IsProducer (Options s1)))"
     "IsLeft s1 = (\<not> IsRight s1)"
     "IsFirst s1 = (IsFirst s \<or> Index s = 1)"
     "IsLast s1 = (IsLast s \<or> (Index s \<noteq> 1 \<and> Index s = n))"
    using s1 nl nr
    by (auto simp: attach_direction_def attach_position_def Let_def split: if_splits)
  show "IsRight s' = (\<not> (IsLast s' \<and> IsProducer (Options s')) \<and>
                    \<not> (IsFirst s' \<and> \<not> IsProducer (Options s')))"
    using d fl by simp
  show "IsLeft s' = (\<not> IsRight s')" using d fl by simp
  show "Dir s' = (if IsRight s' then DIR_R else DIR_L)" using d fl by auto
  show "IsFirst s' = (IsFirst s \<or> Index s = 1)" using d fl by simp
  show "IsLast s' = (IsLast s \<or> (Index s \<noteq> 1 \<and> Index s = n))" using d fl by simp
qed

lemma attach_events_fields:
  "attach_events wait stop hds (s, po) = (s', po') \<Longrightarrow>
     IsFirst s' = IsFirst s \<and> IsLast s' = IsLast s \<and> IsLeft s' = IsLeft s \<and>
     IsRight s' = IsRight s \<and> Options s' = Options s \<and> Dir s' = Dir s \<and> K s' = K s \<and>
     Index s' = Index s \<and> inputs s' = inputs s \<and> callbacks s' = callbacks s \<and>
     Inputs po' = Inputs po \<and> Callbacks po' = Callbacks po"
  by (auto simp: attach_events_def OnEventPre_def OnEventPost_def Let_def split: if_splits)

lemma attach_Inl:
  "attach n Stages A wait stop po s = Inl e \<longleftrightarrow> attach_to_inputs n Stages A po s = Inl e"
  by (simp add: attach_def split: sum.splits)

lemma attach_Inr:
  assumes "attach n Stages A wait stop po s = Inr (s', po')"
  obtains s0 po0 where "attach_to_inputs n Stages A po s = Inr (s0, po0)"
    and "IsFirst s' = IsFirst s0" "IsLast s' = IsLast s0" "IsLeft s' = IsLeft s0"
        "IsRight s' = IsRight s0" "Options s' = Options s0" "Dir s' = Dir s0"
        "inputs s' = inputs s0" "Inputs po' = Inputs po0"
proof -
  from assms obtain s0 po0 where a: "attach_to_inputs n Stages A po s = Inr (s0, po0)"
    and e: "attach_events wait stop (length (Handlers po)) (s0, po0) = (s', po')"
    by (auto simp: attach_def split: sum.splits)
  from attach_events_fields [OF e] that [OF a] show thesis by simp
qed

text \<open>
  C2, as the code has it. A stage that sets both \<open>--left\<close> and \<open>--right\<close> and is not declared bidirectional
  fails \<open>attach\<close> with \<open>ErrLR\<close>, and \<open>attach\<close> gives \<open>ErrLR\<close> for no other reason (the
  stage's own \<open>Attach\<close> aside). A stage that sets neither is, once attached, a right
  stage, unless it is a last stage that is a producer or a first stage that is not one:
  then it is a left stage; in either case \<open>IsLeft\<close> is the negation of \<open>IsRight\<close>.
  Here first and last are the flags \<open>IsFirst\<close> and \<open>IsLast\<close> as \<open>attach\<close> resolves them:
  the stage with index 1 is first, and the stage with index \<open>StageCount\<close> is last when
  that index is not 1, so the only stage of a pipe of one stage is first and not last.
\<close>

theorem attach_left_right:
  "(k_left (K s) \<and> k_right (K s) \<and> \<not> Bidir (Options s) \<longrightarrow>
      attach n Stages A wait stop po s = Inl ErrLR) \<and>
   (attach n Stages A wait stop po s = Inl ErrLR \<and> (\<forall>s1. A s1 po \<noteq> Inl ErrLR) \<longrightarrow>
      k_left (K s) \<and> k_right (K s) \<and> \<not> Bidir (Options s)) \<and>
   (attach n Stages A wait stop po s = Inr (s', po') \<and> \<not> k_left (K s) \<and> \<not> k_right (K s) \<longrightarrow>
      IsRight s' = (\<not> (IsLast s' \<and> IsProducer (Options s')) \<and>
                    \<not> (IsFirst s' \<and> \<not> IsProducer (Options s'))) \<and>
      IsLeft s' = (\<not> IsRight s') \<and>
      Dir s' = (if IsRight s' then DIR_R else DIR_L) \<and>
      IsFirst s' = (IsFirst s \<or> Index s = 1) \<and>
      IsLast s' = (IsLast s \<or> (Index s \<noteq> 1 \<and> Index s = n)))"
proof (intro conjI impI)
  assume "k_left (K s) \<and> k_right (K s) \<and> \<not> Bidir (Options s)"
  then have "attach_to_inputs n Stages A po s = Inl ErrLR"
    using attach_to_inputs_left_right [where s = s and n = n and Stages = Stages and A = A
        and po = po, THEN conjunct1]
    by blast
  then show "attach n Stages A wait stop po s = Inl ErrLR"
    by (simp add: attach_Inl)
next
  assume a: "attach n Stages A wait stop po s = Inl ErrLR \<and> (\<forall>s1. A s1 po \<noteq> Inl ErrLR)"
  then have "attach_to_inputs n Stages A po s = Inl ErrLR \<and> (\<forall>s1. A s1 po \<noteq> Inl ErrLR)"
    by (simp add: attach_Inl)
  then show "k_left (K s)" "k_right (K s)" "\<not> Bidir (Options s)"
    using attach_to_inputs_ErrLR [of n Stages A po s] by blast+
next
  assume a: "attach n Stages A wait stop po s = Inr (s', po') \<and>
    \<not> k_left (K s) \<and> \<not> k_right (K s)"
  then obtain s0 po0 where p: "attach_to_inputs n Stages A po s = Inr (s0, po0)"
    and fl: "IsFirst s' = IsFirst s0" "IsLast s' = IsLast s0" "IsLeft s' = IsLeft s0"
        "IsRight s' = IsRight s0" "Options s' = Options s0" "Dir s' = Dir s0"
    using attach_Inr [of n Stages A wait stop po s s' po'] by blast
  have d: "IsRight s0 = (\<not> (IsLast s0 \<and> IsProducer (Options s0)) \<and>
                    \<not> (IsFirst s0 \<and> \<not> IsProducer (Options s0))) \<and>
      IsLeft s0 = (\<not> IsRight s0) \<and>
      Dir s0 = (if IsRight s0 then DIR_R else DIR_L) \<and>
      IsFirst s0 = (IsFirst s \<or> Index s = 1) \<and>
      IsLast s0 = (IsLast s \<or> (Index s \<noteq> 1 \<and> Index s = n))"
    using p a attach_to_inputs_left_right [where s = s and n = n and Stages = Stages and A = A
        and po = po and s' = s0 and po' = po0, THEN conjunct2, THEN conjunct2]
    by blast
  show "IsRight s' = (\<not> (IsLast s' \<and> IsProducer (Options s')) \<and>
                    \<not> (IsFirst s' \<and> \<not> IsProducer (Options s')))"
    using d fl by auto
  show "IsLeft s' = (\<not> IsRight s')" using d fl by simp
  show "Dir s' = (if IsRight s' then DIR_R else DIR_L)" using d fl by simp
  show "IsFirst s' = (IsFirst s \<or> Index s = 1)" using d fl by simp
  show "IsLast s' = (IsLast s \<or> (Index s \<noteq> 1 \<and> Index s = n))" using d fl by simp
qed

lemmas attach_run_defs = example_stage_def no_options_def no_pipe_options_def
  Attach_two_inputs_def new_input_def attach_def attach_events_def OnEventPre_def
  OnEventPost_def attach_to_inputs_def attach_position_def attach_direction_def
  attach_Dir_def attach_fix_def in_filter_def fix_input_def Let_def

theorem attach_left_right_witness:
  "attach 3 [] Attach_two_inputs [] [] no_pipe_options
     (example_stage 2 ''b'' True True [] no_options) = Inl ErrLR \<and>
   (case attach 3 [] Attach_two_inputs [] [] no_pipe_options
           (example_stage 3 ''c'' False False [] (no_options\<lparr>IsProducer := True\<rparr>)) of
      Inl e \<Rightarrow> False
    | Inr (s', po') \<Rightarrow> IsLast s' \<and> IsLeft s' \<and> \<not> IsRight s' \<and> Dir s' = DIR_L) \<and>
   (case attach 3 [] Attach_two_inputs [] [] no_pipe_options
           (example_stage 1 ''a'' False False [] no_options) of
      Inl e \<Rightarrow> False
    | Inr (s', po') \<Rightarrow> IsFirst s' \<and> IsLeft s' \<and> \<not> IsRight s' \<and> Dir s' = DIR_L) \<and>
   (case attach 3 [] Attach_two_inputs [] [] no_pipe_options
           (example_stage 2 ''b'' False False [] no_options) of
      Inl e \<Rightarrow> False
    | Inr (s', po') \<Rightarrow> \<not> IsFirst s' \<and> \<not> IsLast s' \<and> \<not> IsLeft s' \<and> IsRight s' \<and> Dir s' = DIR_R) \<and>
   (case attach 3 [] Attach_two_inputs [] [] no_pipe_options
           (example_stage 2 ''b'' True True [] (no_options\<lparr>Bidir := True\<rparr>)) of
      Inl e \<Rightarrow> False
    | Inr (s', po') \<Rightarrow> IsLeft s' \<and> IsRight s' \<and> Dir s' = DIR_LR)"
proof -
  let ?lr = "example_stage 2 ''b'' True True [] no_options"
  have ev:
    "attach 3 [] Attach_two_inputs [] [] no_pipe_options
       (example_stage 2 ''b'' True True [] no_options) = Inl ErrLR \<and>
     (case attach 3 [] Attach_two_inputs [] [] no_pipe_options
             (example_stage 3 ''c'' False False [] (no_options\<lparr>IsProducer := True\<rparr>)) of
        Inl e \<Rightarrow> False
      | Inr (s', po') \<Rightarrow> IsLast s' \<and> IsLeft s' \<and> \<not> IsRight s' \<and> Dir s' = DIR_L) \<and>
     (case attach 3 [] Attach_two_inputs [] [] no_pipe_options
             (example_stage 1 ''a'' False False [] no_options) of
        Inl e \<Rightarrow> False
      | Inr (s', po') \<Rightarrow> IsFirst s' \<and> IsLeft s' \<and> \<not> IsRight s' \<and> Dir s' = DIR_L) \<and>
     (case attach 3 [] Attach_two_inputs [] [] no_pipe_options
             (example_stage 2 ''b'' False False [] no_options) of
        Inl e \<Rightarrow> False
      | Inr (s', po') \<Rightarrow> \<not> IsFirst s' \<and> \<not> IsLast s' \<and> \<not> IsLeft s' \<and> IsRight s' \<and> Dir s' = DIR_R) \<and>
     (case attach 3 [] Attach_two_inputs [] [] no_pipe_options
             (example_stage 2 ''b'' True True [] (no_options\<lparr>Bidir := True\<rparr>)) of
        Inl e \<Rightarrow> False
      | Inr (s', po') \<Rightarrow> IsLeft s' \<and> IsRight s' \<and> Dir s' = DIR_LR)"
    by (simp add: attach_run_defs)
  have both: "k_left (K ?lr) \<and> k_right (K ?lr) \<and> \<not> Bidir (Options ?lr)"
    by (simp add: example_stage_def no_options_def)
  have "attach 3 [] Attach_two_inputs [] [] no_pipe_options ?lr = Inl ErrLR"
    using both
      attach_left_right [where s = ?lr and n = 3 and Stages = "[]" and A = Attach_two_inputs
        and wait = "[]" and stop = "[]" and po = no_pipe_options, THEN conjunct1]
    by (rule rev_mp)
  then show ?thesis
    using ev by simp
qed

text \<open>
  The claim as written, with last read as the last position, fails for a pipe of one
  stage: its stage has the index \<open>StageCount\<close>, and as a producer that sets neither
  \<open>--left\<close> nor \<open>--right\<close> it is attached as a right stage, since \<open>attach\<close> marks it
  first and not last.
\<close>

theorem attach_left_right_counterexample:
  "Index (example_stage 1 ''a'' False False [] (no_options\<lparr>IsProducer := True\<rparr>)) = 1 \<and>
   IsProducer (Options (example_stage 1 ''a'' False False [] (no_options\<lparr>IsProducer := True\<rparr>))) \<and>
   (case attach 1 [] Attach_two_inputs [] [] no_pipe_options
           (example_stage 1 ''a'' False False [] (no_options\<lparr>IsProducer := True\<rparr>)) of
      Inl e \<Rightarrow> False
    | Inr (s', po') \<Rightarrow>
        IsFirst s' \<and> \<not> IsLast s' \<and> \<not> IsLeft s' \<and> IsRight s' \<and> Dir s' = DIR_R)"
  by (simp add: attach_run_defs)

subsection \<open>Attaching a stage: the injection filter\<close>

lemma Atoi_at: "Atoi (CHR ''@'' # name) = None"
  by (simp add: Atoi_def is_digit_def)

lemma Atoi_keywords:
  "Atoi ''next'' = None" "Atoi [] = None" "Atoi ''here'' = None"
  "Atoi ''first'' = None" "Atoi ''last'' = None"
  by (simp_all add: Atoi_def is_digit_def)

lemma find_name_first:
  "j < length Stages \<Longrightarrow> Stages ! j = Some s2 \<Longrightarrow> Name s2 = v \<Longrightarrow>
   (\<forall>k<j. \<forall>s. Stages ! k = Some s \<longrightarrow> Name s \<noteq> v) \<Longrightarrow>
     find_name Stages v fid = Index s2"
proof (induction Stages v fid arbitrary: j rule: find_name.induct)
  case (1 v fid)
  then show ?case by simp
next
  case (2 ss v fid)
  then obtain j' where j: "j = Suc j'" by (cases j) auto
  have "\<forall>k<j'. \<forall>s. ss ! k = Some s \<longrightarrow> Name s \<noteq> v"
    using 2(5) j by (metis Suc_less_eq nth_Cons_Suc)
  then show ?case using 2 j by simp
next
  case (3 s ss v fid)
  show ?case
  proof (cases j)
    case 0
    then show ?thesis using 3 by simp
  next
    case (Suc j')
    have n: "Name s \<noteq> v" using 3(5) Suc by (metis nth_Cons_0 zero_less_Suc)
    have "\<forall>k<j'. \<forall>s. ss ! k = Some s \<longrightarrow> Name s \<noteq> v"
      using 3(5) Suc by (metis Suc_less_eq nth_Cons_Suc)
    then show ?thesis using 3 Suc n by simp
  qed
qed

lemma find_name_none:
  "(\<forall>s. Some s \<in> set Stages \<longrightarrow> Name s \<noteq> v) \<Longrightarrow> find_name Stages v fid = fid"
  by (induction Stages v fid rule: find_name.induct) auto

lemma in_filter_keywords:
  "in_filter i Stages ''next'' = Inr (FILTER_GE, FILTER_LE, i)"
  "in_filter i Stages [] = Inr (FILTER_GE, FILTER_LE, i)"
  "in_filter i Stages ''here'' = Inr (FILTER_GT, FILTER_LT, i)"
  "in_filter i Stages ''first'' = Inr (FILTER_NONE, FILTER_NONE, 0)"
  "in_filter i Stages ''last'' = Inr (FILTER_ALL, FILTER_ALL, 0)"
  by (simp_all add: in_filter_def)

lemma in_filter_other:
  assumes "v \<notin> {''next'', [], ''here'', ''first'', ''last''}"
  shows "in_filter i Stages v =
     (let fid = (case Atoi v of Some i \<Rightarrow> i
                 | None \<Rightarrow> if hd v = CHR ''@'' then find_name Stages v 0 else 0)
      in if fid \<le> 0 then Inl (ErrInject v) else Inr (FILTER_GE, FILTER_LE, fid))"
  using assms by (simp add: in_filter_def Let_def)

lemma Atoi_not_keyword:
  "Atoi v = Some n \<Longrightarrow> v \<notin> {''next'', [], ''here'', ''first'', ''last''}"
  using Atoi_keywords by auto

lemma at_not_keyword: "CHR ''@'' # name \<notin> {''next'', [], ''here'', ''first'', ''last''}"
  by simp

lemma in_filter_integer:
  "Atoi v = Some n \<Longrightarrow>
     in_filter i Stages v = (if n \<le> 0 then Inl (ErrInject v) else Inr (FILTER_GE, FILTER_LE, n))"
  using in_filter_other [OF Atoi_not_keyword, of v n i Stages] by (simp add: Let_def)

lemma in_filter_name:
  "in_filter i Stages (CHR ''@'' # name) =
     (if find_name Stages (CHR ''@'' # name) 0 \<le> 0 then Inl (ErrInject (CHR ''@'' # name))
      else Inr (FILTER_GE, FILTER_LE, find_name Stages (CHR ''@'' # name) 0))"
  using in_filter_other [OF at_not_keyword, of i Stages name] by (simp add: Let_def Atoi_at)

lemma fix_input_fields:
  "in_Id (fix_input i frev ffwd fid li) = i \<and>
   in_FilterValue (fix_input i frev ffwd fid li) = fid \<and>
   in_Dir (fix_input i frev ffwd fid li) = in_Dir li \<and>
   in_Reverse (fix_input i frev ffwd fid li) = (in_Dir li = DIR_L) \<and>
   in_CallbackFilter (fix_input i frev ffwd fid li) = (if in_Dir li = DIR_L then frev else ffwd)"
  by (simp add: fix_input_def Let_def)

lemma attach_fix_inputs:
  assumes "attach_fix Stages cbs hds ins s po = Inr (s', po')"
  obtains frev ffwd fid where "in_filter (Index s) Stages (k_in (K s)) = Inr (frev, ffwd, fid)"
    and "inputs s' = map (fix_input (Index s) frev ffwd fid) (drop ins (Inputs po))"
    and "Inputs po' = take ins (Inputs po) @ inputs s'"
proof (cases "in_filter (Index s) Stages (k_in (K s))")
  case (Inl e)
  then show ?thesis using assms by (simp add: attach_fix_def Let_def split: if_splits)
next
  case (Inr y)
  obtain frev ffwd fid where y: "y = (frev, ffwd, fid)" by (cases y) auto
  have "inputs s' = map (fix_input (Index s) frev ffwd fid) (drop ins (Inputs po))"
    and "Inputs po' = take ins (Inputs po) @ inputs s'"
    using assms Inr y by (auto simp: attach_fix_def Let_def split: if_splits)
  then show ?thesis using that Inr y by blast
qed

lemma attach_fix_ErrInject:
  assumes "in_filter (Index s) Stages (k_in (K s)) = Inl e"
  shows "\<exists>e'. attach_fix Stages cbs hds ins s po = Inl e'"
    and "Name s \<noteq> [] \<Longrightarrow> \<not> (IsConsumer (Options s) \<and> \<not> (IsFirst s \<or> IsLast s)) \<Longrightarrow>
         cbs \<le> length (Callbacks po) \<Longrightarrow> hds \<le> length (Handlers po) \<Longrightarrow>
           attach_fix Stages cbs hds ins s po = Inl (ErrInject (k_in (K s)))"
  using assms in_filter_Inl [OF assms] by (auto simp: attach_fix_def Let_def)

lemma attach_position_fields:
  "Index (attach_position n s) = Index s \<and> Name (attach_position n s) = Name s \<and>
   K (attach_position n s) = K s \<and> Options (attach_position n s) = Options s"
  by (simp add: attach_position_def)

lemma attach_to_inputs_in_Inr:
  assumes att: "attach_to_inputs cnt Stages A po s = Inr (s', po')" and pos: "0 < Index s"
  shows "\<exists>frev ffwd fid s1 po1.
           in_filter (Index s) Stages (k_in (K s)) = Inr (frev, ffwd, fid) \<and>
           attach_direction (attach_position cnt s) = Inr s1 \<and>
           A (attach_Dir s1) po = Inr po1 \<and>
           inputs s' = map (fix_input (Index s) frev ffwd fid)
                         (drop (length (Inputs po)) (Inputs po1)) \<and>
           Inputs po' = take (length (Inputs po)) (Inputs po1) @ inputs s' \<and>
           (\<forall>li \<in> set (inputs s').
              in_Id li = Index s \<and> in_FilterValue li = fid \<and>
              (in_Dir li = DIR_L \<longrightarrow> in_Reverse li \<and> in_CallbackFilter li = frev) \<and>
              (in_Dir li = DIR_R \<longrightarrow> \<not> in_Reverse li \<and> in_CallbackFilter li = ffwd))"
proof -
  from att obtain s1 po1 where s1: "attach_direction (attach_position cnt s) = Inr s1"
    and po1: "A (attach_Dir s1) po = Inr po1"
    and fx: "0 < Index s1 \<Longrightarrow>
           attach_fix Stages (length (Callbacks po)) (length (Handlers po)) (length (Inputs po))
             (attach_Dir s1) po1 = Inr (s', po')"
    by (rule attach_to_inputs_Inr) blast
  have eq: "Index s1 = Index s" "K s1 = K s"
    using attach_direction_flags [OF s1] by (simp_all add: attach_position_fields)
  then have fx': "attach_fix Stages (length (Callbacks po)) (length (Handlers po)) (length (Inputs po))
             (attach_Dir s1) po1 = Inr (s', po')"
    using fx pos by simp
  from fx' obtain frev ffwd fid where
    f: "in_filter (Index s) Stages (k_in (K s)) = Inr (frev, ffwd, fid)"
    and i: "inputs s' = map (fix_input (Index s) frev ffwd fid) (drop (length (Inputs po)) (Inputs po1))"
    and pi: "Inputs po' = take (length (Inputs po)) (Inputs po1) @ inputs s'"
    by (rule attach_fix_inputs) (simp add: attach_Dir_flags eq)
  have "\<forall>li \<in> set (inputs s').
              in_Id li = Index s \<and> in_FilterValue li = fid \<and>
              (in_Dir li = DIR_L \<longrightarrow> in_Reverse li \<and> in_CallbackFilter li = frev) \<and>
              (in_Dir li = DIR_R \<longrightarrow> \<not> in_Reverse li \<and> in_CallbackFilter li = ffwd)"
    unfolding i by (auto simp: fix_input_fields)
  then show ?thesis using f s1 po1 i pi by blast
qed

lemma attach_to_inputs_in_Inl:
  assumes pos: "0 < Index s" and f: "in_filter (Index s) Stages (k_in (K s)) = Inl e"
  shows "\<exists>e'. attach_to_inputs cnt Stages A po s = Inl e'"
    and "attach_direction (attach_position cnt s) = Inr s1 \<Longrightarrow> A (attach_Dir s1) po = Inr po1 \<Longrightarrow>
         Name s \<noteq> [] \<Longrightarrow> \<not> (IsConsumer (Options s) \<and> \<not> (IsFirst s1 \<or> IsLast s1)) \<Longrightarrow>
         length (Callbacks po) \<le> length (Callbacks po1) \<Longrightarrow>
         length (Handlers po) \<le> length (Handlers po1) \<Longrightarrow>
           attach_to_inputs cnt Stages A po s = Inl (ErrInject (k_in (K s)))"
proof -
  show "\<exists>e'. attach_to_inputs cnt Stages A po s = Inl e'"
  proof (cases "attach_direction (attach_position cnt s)")
    case (Inl x)
    then show ?thesis by (simp add: attach_to_inputs_def)
  next
    case (Inr t)
    have eq: "Index t = Index s" "K t = K s"
      using attach_direction_flags [OF Inr] by (simp_all add: attach_position_fields)
    show ?thesis
    proof (cases "A (attach_Dir t) po")
      case (Inl x)
      then show ?thesis using Inr by (simp add: attach_to_inputs_def Let_def)
    next
      case po2: (Inr po2)
      have "in_filter (Index (attach_Dir t)) Stages (k_in (K (attach_Dir t))) = Inl e"
        using f eq by (simp add: attach_Dir_flags)
      from attach_fix_ErrInject(1) [OF this]
      show ?thesis using Inr po2 pos eq by (simp add: attach_to_inputs_def Let_def attach_Dir_flags)
    qed
  qed
next
  assume s1: "attach_direction (attach_position cnt s) = Inr s1"
    and po1: "A (attach_Dir s1) po = Inr po1"
    and nm: "Name s \<noteq> []" and cons: "\<not> (IsConsumer (Options s) \<and> \<not> (IsFirst s1 \<or> IsLast s1))"
    and l1: "length (Callbacks po) \<le> length (Callbacks po1)"
    and l2: "length (Handlers po) \<le> length (Handlers po1)"
  have eq: "Index s1 = Index s" "K s1 = K s" "Name s1 = Name s" "Options s1 = Options s"
    using attach_direction_flags [OF s1] by (simp_all add: attach_position_fields)
  have "in_filter (Index (attach_Dir s1)) Stages (k_in (K (attach_Dir s1))) = Inl e"
    using f eq by (simp add: attach_Dir_flags)
  from attach_fix_ErrInject(2) [OF this, of "length (Callbacks po)" po1 "length (Handlers po)" "length (Inputs po)"]
  show "attach_to_inputs cnt Stages A po s = Inl (ErrInject (k_in (K s)))"
    using s1 po1 pos eq nm cons l1 l2 by (simp add: attach_to_inputs_def Let_def attach_Dir_flags)
qed

text \<open>
  C1. The injection filter computed from the \<open>--in\<close> option \<open>v\<close> of a stage with index
  \<open>i\<close>: \<open>next\<close> or the empty value gives GE / LE with \<open>i\<close>; \<open>here\<close> gives GT / LT with
  \<open>i\<close>; \<open>first\<close> gives no filter; \<open>last\<close> gives the all filter; an integer gives
  GE / LE with that integer when it is positive; an \<open>@name\<close> gives GE / LE with the index
  of the first stage of that name; and every value that resolves to no positive id
  gives \<open>ErrInject\<close>. When \<open>attach\<close> of a stage with a positive index succeeds, every
  input the stage has registered carries the stage's index and the filter id, an \<open>L\<close> input
  the reverse mode with \<open>Reverse\<close> set, an \<open>R\<close> input the forward mode; and these very
  inputs are the ones the pipe holds after those it had before. When the filter
  is \<open>ErrInject\<close>, \<open>attach\<close> fails, and with that very error once the checks that
  come before it in \<open>attach\<close> have passed.
\<close>

theorem attach_input_filter:
  "(v = ''next'' \<or> v = [] \<longrightarrow> in_filter i Stages v = Inr (FILTER_GE, FILTER_LE, i)) \<and>
   (v = ''here'' \<longrightarrow> in_filter i Stages v = Inr (FILTER_GT, FILTER_LT, i)) \<and>
   (v = ''first'' \<longrightarrow> in_filter i Stages v = Inr (FILTER_NONE, FILTER_NONE, 0)) \<and>
   (v = ''last'' \<longrightarrow> in_filter i Stages v = Inr (FILTER_ALL, FILTER_ALL, 0)) \<and>
   (Atoi v = Some n \<and> 0 < n \<longrightarrow> in_filter i Stages v = Inr (FILTER_GE, FILTER_LE, n)) \<and>
   (Atoi v = Some n \<and> n \<le> 0 \<longrightarrow> in_filter i Stages v = Inl (ErrInject v)) \<and>
   (v = CHR ''@'' # name \<and> j < length Stages \<and> Stages ! j = Some s2 \<and> Name s2 = v \<and>
    (\<forall>k<j. \<forall>t. Stages ! k = Some t \<longrightarrow> Name t \<noteq> v) \<longrightarrow>
      in_filter i Stages v =
        (if 0 < Index s2 then Inr (FILTER_GE, FILTER_LE, Index s2) else Inl (ErrInject v))) \<and>
   (v = CHR ''@'' # name \<and> (\<forall>t. Some t \<in> set Stages \<longrightarrow> Name t \<noteq> v) \<longrightarrow>
      in_filter i Stages v = Inl (ErrInject v)) \<and>
   (v \<notin> {''next'', [], ''here'', ''first'', ''last''} \<and> Atoi v = None \<and> hd v \<noteq> CHR ''@'' \<longrightarrow>
      in_filter i Stages v = Inl (ErrInject v)) \<and>
   (attach cnt Stages A wait stop po s = Inr (s', po') \<and> 0 < Index s \<longrightarrow>
      (\<exists>frev ffwd fid s1 po1.
         in_filter (Index s) Stages (k_in (K s)) = Inr (frev, ffwd, fid) \<and>
         attach_direction (attach_position cnt s) = Inr s1 \<and>
         A (attach_Dir s1) po = Inr po1 \<and>
         inputs s' = map (fix_input (Index s) frev ffwd fid)
                       (drop (length (Inputs po)) (Inputs po1)) \<and>
         Inputs po' = take (length (Inputs po)) (Inputs po1) @ inputs s' \<and>
         (\<forall>li \<in> set (inputs s').
            in_Id li = Index s \<and> in_FilterValue li = fid \<and>
            (in_Dir li = DIR_L \<longrightarrow> in_Reverse li \<and> in_CallbackFilter li = frev) \<and>
            (in_Dir li = DIR_R \<longrightarrow> \<not> in_Reverse li \<and> in_CallbackFilter li = ffwd)))) \<and>
   (0 < Index s \<and> in_filter (Index s) Stages (k_in (K s)) = Inl e \<longrightarrow>
      e = ErrInject (k_in (K s)) \<and>
      (\<exists>e'. attach cnt Stages A wait stop po s = Inl e') \<and>
      (\<forall>s1 po1. attach_direction (attach_position cnt s) = Inr s1 \<and>
                 A (attach_Dir s1) po = Inr po1 \<and> Name s \<noteq> [] \<and>
                 \<not> (IsConsumer (Options s) \<and> \<not> (IsFirst s1 \<or> IsLast s1)) \<and>
                 length (Callbacks po) \<le> length (Callbacks po1) \<and>
                 length (Handlers po) \<le> length (Handlers po1) \<longrightarrow>
         attach cnt Stages A wait stop po s = Inl (ErrInject (k_in (K s)))))"
proof -
  have kw: "(v = ''next'' \<or> v = [] \<longrightarrow> in_filter i Stages v = Inr (FILTER_GE, FILTER_LE, i)) \<and>
   (v = ''here'' \<longrightarrow> in_filter i Stages v = Inr (FILTER_GT, FILTER_LT, i)) \<and>
   (v = ''first'' \<longrightarrow> in_filter i Stages v = Inr (FILTER_NONE, FILTER_NONE, 0)) \<and>
   (v = ''last'' \<longrightarrow> in_filter i Stages v = Inr (FILTER_ALL, FILTER_ALL, 0))"
    using in_filter_keywords [of i Stages] by auto
  have int: "(Atoi v = Some n \<and> 0 < n \<longrightarrow> in_filter i Stages v = Inr (FILTER_GE, FILTER_LE, n)) \<and>
   (Atoi v = Some n \<and> n \<le> 0 \<longrightarrow> in_filter i Stages v = Inl (ErrInject v))"
    using in_filter_integer [of v n i Stages] by auto
  have nm1: "v = CHR ''@'' # name \<and> j < length Stages \<and> Stages ! j = Some s2 \<and> Name s2 = v \<and>
    (\<forall>k<j. \<forall>t. Stages ! k = Some t \<longrightarrow> Name t \<noteq> v) \<longrightarrow>
      in_filter i Stages v =
        (if 0 < Index s2 then Inr (FILTER_GE, FILTER_LE, Index s2) else Inl (ErrInject v))"
  proof
    assume a: "v = CHR ''@'' # name \<and> j < length Stages \<and> Stages ! j = Some s2 \<and> Name s2 = v \<and>
      (\<forall>k<j. \<forall>t. Stages ! k = Some t \<longrightarrow> Name t \<noteq> v)"
    then have "find_name Stages v 0 = Index s2"
      using find_name_first [of j Stages s2 v 0] by blast
    then show "in_filter i Stages v =
        (if 0 < Index s2 then Inr (FILTER_GE, FILTER_LE, Index s2) else Inl (ErrInject v))"
      using a in_filter_name [of i Stages name] by auto
  qed
  have nm2: "v = CHR ''@'' # name \<and> (\<forall>t. Some t \<in> set Stages \<longrightarrow> Name t \<noteq> v) \<longrightarrow>
      in_filter i Stages v = Inl (ErrInject v)"
  proof
    assume a: "v = CHR ''@'' # name \<and> (\<forall>t. Some t \<in> set Stages \<longrightarrow> Name t \<noteq> v)"
    then have "find_name Stages v 0 = 0"
      using find_name_none [of Stages v 0] by blast
    then show "in_filter i Stages v = Inl (ErrInject v)"
      using a in_filter_name [of i Stages name] by simp
  qed
  have oth: "v \<notin> {''next'', [], ''here'', ''first'', ''last''} \<and> Atoi v = None \<and> hd v \<noteq> CHR ''@'' \<longrightarrow>
      in_filter i Stages v = Inl (ErrInject v)"
    using in_filter_other [of v i Stages] by (auto simp: Let_def)
  have ok: "attach cnt Stages A wait stop po s = Inr (s', po') \<and> 0 < Index s \<longrightarrow>
      (\<exists>frev ffwd fid s1 po1.
         in_filter (Index s) Stages (k_in (K s)) = Inr (frev, ffwd, fid) \<and>
         attach_direction (attach_position cnt s) = Inr s1 \<and>
         A (attach_Dir s1) po = Inr po1 \<and>
         inputs s' = map (fix_input (Index s) frev ffwd fid)
                       (drop (length (Inputs po)) (Inputs po1)) \<and>
         Inputs po' = take (length (Inputs po)) (Inputs po1) @ inputs s' \<and>
         (\<forall>li \<in> set (inputs s').
            in_Id li = Index s \<and> in_FilterValue li = fid \<and>
            (in_Dir li = DIR_L \<longrightarrow> in_Reverse li \<and> in_CallbackFilter li = frev) \<and>
            (in_Dir li = DIR_R \<longrightarrow> \<not> in_Reverse li \<and> in_CallbackFilter li = ffwd)))"
  proof
    assume a: "attach cnt Stages A wait stop po s = Inr (s', po') \<and> 0 < Index s"
    then obtain s0 po0 where p: "attach_to_inputs cnt Stages A po s = Inr (s0, po0)"
      and eq: "inputs s' = inputs s0" "Inputs po' = Inputs po0"
      using attach_Inr [of cnt Stages A wait stop po s s' po'] by blast
    from attach_to_inputs_in_Inr [OF p] a eq
    show "\<exists>frev ffwd fid s1 po1.
         in_filter (Index s) Stages (k_in (K s)) = Inr (frev, ffwd, fid) \<and>
         attach_direction (attach_position cnt s) = Inr s1 \<and>
         A (attach_Dir s1) po = Inr po1 \<and>
         inputs s' = map (fix_input (Index s) frev ffwd fid)
                       (drop (length (Inputs po)) (Inputs po1)) \<and>
         Inputs po' = take (length (Inputs po)) (Inputs po1) @ inputs s' \<and>
         (\<forall>li \<in> set (inputs s').
            in_Id li = Index s \<and> in_FilterValue li = fid \<and>
            (in_Dir li = DIR_L \<longrightarrow> in_Reverse li \<and> in_CallbackFilter li = frev) \<and>
            (in_Dir li = DIR_R \<longrightarrow> \<not> in_Reverse li \<and> in_CallbackFilter li = ffwd))"
      by simp
  qed
  have bad: "0 < Index s \<and> in_filter (Index s) Stages (k_in (K s)) = Inl e \<longrightarrow>
      e = ErrInject (k_in (K s)) \<and>
      (\<exists>e'. attach cnt Stages A wait stop po s = Inl e') \<and>
      (\<forall>s1 po1. attach_direction (attach_position cnt s) = Inr s1 \<and>
                 A (attach_Dir s1) po = Inr po1 \<and> Name s \<noteq> [] \<and>
                 \<not> (IsConsumer (Options s) \<and> \<not> (IsFirst s1 \<or> IsLast s1)) \<and>
                 length (Callbacks po) \<le> length (Callbacks po1) \<and>
                 length (Handlers po) \<le> length (Handlers po1) \<longrightarrow>
         attach cnt Stages A wait stop po s = Inl (ErrInject (k_in (K s))))"
  proof (intro impI conjI allI)
    assume a: "0 < Index s \<and> in_filter (Index s) Stages (k_in (K s)) = Inl e"
    show "e = ErrInject (k_in (K s))"
      using a in_filter_Inl by blast
    show "\<exists>e'. attach cnt Stages A wait stop po s = Inl e'"
      using a attach_to_inputs_in_Inl(1) [where e = e and s = s and Stages = Stages
          and cnt = cnt and A = A and po = po]
      by (simp add: attach_Inl)
  next
    fix s1 po1
    assume a: "0 < Index s \<and> in_filter (Index s) Stages (k_in (K s)) = Inl e"
      and b: "attach_direction (attach_position cnt s) = Inr s1 \<and>
                 A (attach_Dir s1) po = Inr po1 \<and> Name s \<noteq> [] \<and>
                 \<not> (IsConsumer (Options s) \<and> \<not> (IsFirst s1 \<or> IsLast s1)) \<and>
                 length (Callbacks po) \<le> length (Callbacks po1) \<and>
                 length (Handlers po) \<le> length (Handlers po1)"
    show "attach cnt Stages A wait stop po s = Inl (ErrInject (k_in (K s)))"
      using a b attach_to_inputs_in_Inl(2) [where e = e and ?s1.0 = s1 and ?po1.0 = po1
          and s = s and Stages = Stages and cnt = cnt and A = A and po = po]
      by (simp add: attach_Inl)
  qed
  show ?thesis
    using kw int nm1 nm2 oth ok bad by blast
qed

theorem attach_input_filter_witness:
  "in_filter 1 example_stages ''@b'' = Inr (FILTER_GE, FILTER_LE, 2) \<and>
   in_filter 1 example_stages ''3'' = Inr (FILTER_GE, FILTER_LE, 3) \<and>
   in_filter 1 example_stages ''@c'' = Inl (ErrInject ''@c'') \<and>
   in_filter 1 example_stages ''prev'' = Inl (ErrInject ''prev'') \<and>
   (case attach 3 example_stages Attach_two_inputs [] [] no_pipe_options
           (example_stage 1 ''@a'' False False ''@b'' no_options) of
      Inl e \<Rightarrow> False
    | Inr (s', po') \<Rightarrow>
        inputs s' =
          [\<lparr>in_Id = 1, in_Dir = DIR_L, in_Reverse = True,
            in_CallbackFilter = FILTER_GE, in_FilterValue = 2\<rparr>,
           \<lparr>in_Id = 1, in_Dir = DIR_R, in_Reverse = False,
            in_CallbackFilter = FILTER_LE, in_FilterValue = 2\<rparr>] \<and>
        Inputs po' = inputs s') \<and>
   attach 3 example_stages Attach_two_inputs [] [] no_pipe_options
     (example_stage 2 ''@b'' False False ''0'' no_options) = Inl (ErrInject ''0'') \<and>
   (case attach 3 example_stages Attach_two_inputs [] [] no_pipe_options
           (example_stage 3 ''@b'' False False ''here'' no_options) of
      Inl e \<Rightarrow> False
    | Inr (s', po') \<Rightarrow>
        inputs s' =
          [\<lparr>in_Id = 3, in_Dir = DIR_L, in_Reverse = True,
            in_CallbackFilter = FILTER_GT, in_FilterValue = 3\<rparr>,
           \<lparr>in_Id = 3, in_Dir = DIR_R, in_Reverse = False,
            in_CallbackFilter = FILTER_LT, in_FilterValue = 3\<rparr>])"
proof -
  let ?s1 = "example_stage 1 ''@a'' False False ''@b'' no_options"
  let ?s2 = "example_stage 2 ''@b'' False False ''0'' no_options"
  have ev:
    "in_filter 1 example_stages ''@b'' = Inr (FILTER_GE, FILTER_LE, 2) \<and>
     in_filter 1 example_stages ''3'' = Inr (FILTER_GE, FILTER_LE, 3) \<and>
     in_filter 1 example_stages ''@c'' = Inl (ErrInject ''@c'') \<and>
     in_filter 1 example_stages ''prev'' = Inl (ErrInject ''prev'') \<and>
     (case attach 3 example_stages Attach_two_inputs [] [] no_pipe_options
             (example_stage 1 ''@a'' False False ''@b'' no_options) of
        Inl e \<Rightarrow> False
      | Inr (s', po') \<Rightarrow>
          inputs s' =
            [\<lparr>in_Id = 1, in_Dir = DIR_L, in_Reverse = True,
              in_CallbackFilter = FILTER_GE, in_FilterValue = 2\<rparr>,
             \<lparr>in_Id = 1, in_Dir = DIR_R, in_Reverse = False,
              in_CallbackFilter = FILTER_LE, in_FilterValue = 2\<rparr>] \<and>
          Inputs po' = inputs s') \<and>
     attach 3 example_stages Attach_two_inputs [] [] no_pipe_options
       (example_stage 2 ''@b'' False False ''0'' no_options) = Inl (ErrInject ''0'') \<and>
     (case attach 3 example_stages Attach_two_inputs [] [] no_pipe_options
             (example_stage 3 ''@b'' False False ''here'' no_options) of
        Inl e \<Rightarrow> False
      | Inr (s', po') \<Rightarrow>
          inputs s' =
            [\<lparr>in_Id = 3, in_Dir = DIR_L, in_Reverse = True,
              in_CallbackFilter = FILTER_GT, in_FilterValue = 3\<rparr>,
             \<lparr>in_Id = 3, in_Dir = DIR_R, in_Reverse = False,
              in_CallbackFilter = FILTER_LT, in_FilterValue = 3\<rparr>])"
    by (simp add: example_stages_def attach_run_defs Atoi_def is_digit_def digit_val_def)
  have first: "\<forall>k<2. \<forall>t. example_stages ! k = Some t \<longrightarrow> Name t \<noteq> ''@b''"
    by (auto simp: example_stages_def example_stage_def less_2_cases_iff)
  have found: "''@b'' = CHR ''@'' # ''b'' \<and> 2 < length example_stages \<and>
      example_stages ! 2 = Some ?s2 \<and> Name ?s2 = ''@b'' \<and>
      (\<forall>k<2. \<forall>t. example_stages ! k = Some t \<longrightarrow> Name t \<noteq> ''@b'')"
    using first by (simp add: example_stages_def example_stage_def)
  have by_name: "in_filter 1 example_stages ''@b'' =
      (if 0 < Index ?s2 then Inr (FILTER_GE, FILTER_LE, Index ?s2) else Inl (ErrInject ''@b''))"
    using found
      attach_input_filter [where v = "''@b''" and i = 1 and Stages = example_stages
        and name = "''b''" and j = 2 and ?s2.0 = ?s2,
        THEN conjunct2, THEN conjunct2, THEN conjunct2, THEN conjunct2, THEN conjunct2,
        THEN conjunct2, THEN conjunct1]
    by (rule rev_mp)
  have bad: "0 < Index ?s2 \<and> in_filter (Index ?s2) example_stages (k_in (K ?s2)) = Inl (ErrInject ''0'')"
    by (simp add: example_stages_def example_stage_def in_filter_def Atoi_def is_digit_def
        digit_val_def Let_def)
  have fails: "\<exists>e'. attach 3 example_stages Attach_two_inputs [] [] no_pipe_options ?s2 = Inl e'"
    using bad
      attach_input_filter [where s = ?s2 and Stages = example_stages and cnt = 3
        and A = Attach_two_inputs and wait = "[]" and stop = "[]" and po = no_pipe_options
        and e = "ErrInject ''0''",
        THEN conjunct2, THEN conjunct2, THEN conjunct2, THEN conjunct2, THEN conjunct2,
        THEN conjunct2, THEN conjunct2, THEN conjunct2, THEN conjunct2, THEN conjunct2]
    by blast
  show ?thesis
    using ev by_name fails by simp
qed

subsection \<open>The adapter: attaching\<close>

lemmas ex_defs = text_Extio_def new_Extio_def example_lib_def TrimSpace_ascii_def is_space_def
  GetMsg_def INVALID_def KEEPALIVE_def UPDATE_def OPEN_def

lemma Attach_inputs_opts:
  "Attach_inputs lib st (eio, p) = (eio', p') \<Longrightarrow>
     opt_copy eio' = opt_copy eio \<and> opt_read eio' = opt_read eio \<and>
     opt_write eio' = opt_write eio"
  by (auto simp: Attach_inputs_def Let_def split: if_splits prod.splits)

lemma Attach_pipe_opts:
  assumes "Attach_pipe lib st (eio, p) = (eio', p')"
  shows "opt_copy eio' = opt_copy eio \<and> opt_read eio' = opt_read eio \<and>
         opt_write eio' = opt_write eio"
proof -
  obtain e4 p4 where e4: "(if \<not> opt_write eio then Attach_inputs lib st (eio, p) else (eio, p)) = (e4, p4)"
    by (cases "if \<not> opt_write eio then Attach_inputs lib st (eio, p) else (eio, p)") auto
  have o4: "opt_copy e4 = opt_copy eio \<and> opt_read e4 = opt_read eio \<and> opt_write e4 = opt_write eio"
  proof (cases "opt_write eio")
    case True
    then show ?thesis using e4 by auto
  next
    case False
    then have "Attach_inputs lib st (eio, p) = (e4, p4)" using e4 by simp
    from Attach_inputs_opts [OF this] show ?thesis by simp
  qed
  have "opt_copy eio' = opt_copy e4 \<and> opt_read eio' = opt_read e4 \<and> opt_write eio' = opt_write e4"
    using assms e4 by (auto simp: Attach_pipe_def split: if_splits prod.splits)
  then show ?thesis using o4 by simp
qed

lemma Attach_options_Inr:
  "Attach_options lib k eio = Inr eio3 \<Longrightarrow>
     opt_read eio3 = k_read k \<and> opt_write eio3 = k_write k \<and>
     opt_copy eio3 = (k_copy k \<or> k_read k \<or> k_write k) \<and>
     \<not> (k_read k \<and> k_write k) \<and> \<not> (k_raw k \<and> k_mrt k)"
  by (cases "parse_types lib (k_type k) (opt_type eio)")
     (auto simp: Attach_options_def Let_def split: if_splits)

lemma Attach_options_types:
  "parse_types lib (k_type k) (opt_type eio) = Inr ts \<Longrightarrow>
     (k_read k \<and> k_write k \<longrightarrow> Attach_options lib k eio = Inl ErrReadWrite) \<and>
     (\<not> (k_read k \<and> k_write k) \<and> k_raw k \<and> k_mrt k \<longrightarrow> Attach_options lib k eio = Inl ErrRawMrt)"
  by (auto simp: Attach_options_def Let_def)

lemma Attach_Inr:
  assumes "Attach lib st k (eio, p) = Inr (eio', p')"
  shows "opt_read eio' = k_read k \<and> opt_write eio' = k_write k \<and>
         opt_copy eio' = (k_copy k \<or> k_read k \<or> k_write k) \<and>
         \<not> (k_read k \<and> k_write k) \<and> \<not> (k_raw k \<and> k_mrt k)"
proof (cases "Attach_options lib k eio")
  case (Inl e)
  then show ?thesis using assms by (simp add: Attach_def)
next
  case (Inr eio3)
  then have "Attach_pipe lib st (eio3, p) = (eio', p')"
    using assms by (simp add: Attach_def)
  from Attach_pipe_opts [OF this] Attach_options_Inr [OF Inr]
  show ?thesis by simp
qed

text \<open>
  C5. \<open>Attach\<close> fails when both \<open>--raw\<close> and \<open>--mrt\<close> are set, and when both \<open>--read\<close>
  and \<open>--write\<close> are set (with the errors made for these two cases once \<open>--type\<close> has
  parsed). When exactly one of \<open>--read\<close> and \<open>--write\<close> is set, an \<open>Attach\<close> that
  succeeds leaves the adapter with \<open>opt_copy\<close> true; with neither set, \<open>opt_copy\<close> is the
  \<open>--copy\<close> option.
\<close>

theorem Attach_exclusive_options:
  "(k_raw k \<and> k_mrt k \<longrightarrow> (\<exists>e. Attach lib st k (eio, p) = Inl e)) \<and>
   (k_read k \<and> k_write k \<longrightarrow> (\<exists>e. Attach lib st k (eio, p) = Inl e)) \<and>
   (k_read k \<and> k_write k \<and> parse_types lib (k_type k) (opt_type eio) = Inr ts \<longrightarrow>
      Attach lib st k (eio, p) = Inl ErrReadWrite) \<and>
   (k_raw k \<and> k_mrt k \<and> \<not> (k_read k \<and> k_write k) \<and>
    parse_types lib (k_type k) (opt_type eio) = Inr ts \<longrightarrow>
      Attach lib st k (eio, p) = Inl ErrRawMrt) \<and>
   (k_read k \<noteq> k_write k \<and> Attach lib st k (eio, p) = Inr (eio', p') \<longrightarrow>
      opt_copy eio' \<and> opt_read eio' = k_read k \<and> opt_write eio' = k_write k) \<and>
   (\<not> k_read k \<and> \<not> k_write k \<and> Attach lib st k (eio, p) = Inr (eio', p') \<longrightarrow>
      opt_copy eio' = k_copy k)"
proof -
  have fails: "\<exists>e. Attach lib st k (eio, p) = Inl e"
    if a: "k_raw k \<and> k_mrt k \<or> k_read k \<and> k_write k"
  proof (cases "Attach lib st k (eio, p)")
    case (Inl e)
    then show ?thesis by blast
  next
    case (Inr r)
    obtain e1 p1 where "r = (e1, p1)" by (cases r) auto
    then show ?thesis using Attach_Inr [of lib st k eio p e1 p1] Inr a by auto
  qed
  have t: "parse_types lib (k_type k) (opt_type eio) = Inr ts \<Longrightarrow>
     (k_read k \<and> k_write k \<longrightarrow> Attach lib st k (eio, p) = Inl ErrReadWrite) \<and>
     (\<not> (k_read k \<and> k_write k) \<and> k_raw k \<and> k_mrt k \<longrightarrow> Attach lib st k (eio, p) = Inl ErrRawMrt)"
    using Attach_options_types [of lib k eio ts] by (auto simp: Attach_def)
  have ok: "Attach lib st k (eio, p) = Inr (eio', p') \<Longrightarrow>
        opt_read eio' = k_read k \<and> opt_write eio' = k_write k \<and>
         opt_copy eio' = (k_copy k \<or> k_read k \<or> k_write k)"
    using Attach_Inr [of lib st k eio p eio' p'] by simp
  show ?thesis
    using fails t ok by blast
qed

theorem Attach_exclusive_options_witness:
  "Attach example_lib right_stage (no_K\<lparr>k_raw := True, k_mrt := True\<rparr>) (new_Extio, (0, [])) =
     Inl ErrRawMrt \<and>
   Attach example_lib right_stage (no_K\<lparr>k_read := True, k_write := True\<rparr>) (new_Extio, (0, [])) =
     Inl ErrReadWrite \<and>
   Attach example_lib right_stage (no_K\<lparr>k_write := True\<rparr>) (new_Extio, (0, [])) =
     Inr (new_Extio\<lparr>opt_write := True, opt_copy := True, Callback := Some 0\<rparr>, (1, [])) \<and>
   Attach example_lib right_stage (no_K\<lparr>k_read := True\<rparr>) (new_Extio, (0, [])) =
     Inr (new_Extio\<lparr>opt_read := True, opt_copy := True, mrt := Some False,
                     InputL := Some 0, InputR := Some 0, InputD := Some 0\<rparr>, (1, []))"
proof -
  have ev: "Attach example_lib right_stage (no_K\<lparr>k_raw := True, k_mrt := True\<rparr>) (new_Extio, (0, [])) =
     Inl ErrRawMrt \<and>
   Attach example_lib right_stage (no_K\<lparr>k_read := True, k_write := True\<rparr>) (new_Extio, (0, [])) =
     Inl ErrReadWrite \<and>
   Attach example_lib right_stage (no_K\<lparr>k_write := True\<rparr>) (new_Extio, (0, [])) =
     Inr (new_Extio\<lparr>opt_write := True, opt_copy := True, Callback := Some 0\<rparr>, (1, [])) \<and>
   Attach example_lib right_stage (no_K\<lparr>k_read := True\<rparr>) (new_Extio, (0, [])) =
     Inr (new_Extio\<lparr>opt_read := True, opt_copy := True, mrt := Some False,
                     InputL := Some 0, InputR := Some 0, InputD := Some 0\<rparr>, (1, []))"
    by (simp add: Attach_def Attach_options_def Attach_pipe_def Attach_inputs_def Let_def
        no_K_def right_stage_def new_Extio_def example_lib_def)
  let ?k = "no_K\<lparr>k_write := True\<rparr>"
  let ?e = "new_Extio\<lparr>opt_write := True, opt_copy := True, Callback := Some 0\<rparr>"
  have "k_read ?k \<noteq> k_write ?k \<and>
        Attach example_lib right_stage ?k (new_Extio, (0, [])) = Inr (?e, (1, []))"
    using ev by (simp add: no_K_def)
  from this Attach_exclusive_options [where k = ?k and lib = example_lib and st = right_stage
      and eio = new_Extio and p = "(0, [])" and eio' = ?e and p' = "(1, [])",
      THEN conjunct2, THEN conjunct2, THEN conjunct2, THEN conjunct2, THEN conjunct1]
  have "opt_copy ?e \<and> opt_read ?e = k_read ?k \<and> opt_write ?e = k_write ?k"
    by (rule rev_mp)
  then show ?thesis using ev by simp
qed

subsection \<open>The adapter: reading\<close>

lemma InputClose_write_only: "opt_write (fst (snd (InputClose Close ep)))"
  by (cases ep) (simp add: InputClose_def split: option.splits)

text \<open>
  C9. In write-only mode \<open>ReadSingle\<close> and \<open>ReadBuf\<close> return \<open>nil\<close> for every input
  and callback and leave the adapter (its line buffer and its log included) and the pipe
  as they were: nothing is parsed, written to an input or logged. \<open>InputClose\<close> puts
  the adapter in that mode.
\<close>

theorem write_only_discards_input:
  "(opt_write eio \<longrightarrow>
      ReadSingle lib input cb (eio, p) = (Returns None, eio, p) \<and>
      ReadBuf lib input cb (eio, p) = (Returns None, eio, p)) \<and>
   (InputClose Close ep = (r, eio', p') \<longrightarrow>
      opt_write eio' \<and>
      ReadSingle lib input cb (eio', p'') = (Returns None, eio', p'') \<and>
      ReadBuf lib input cb (eio', p'') = (Returns None, eio', p''))"
proof -
  have w: "opt_write e \<Longrightarrow>
      ReadSingle lib input cb (e, q) = (Returns None, e, q) \<and>
      ReadBuf lib input cb (e, q) = (Returns None, e, q)" for e q
    by (simp add: ReadSingle_def ReadBuf_def)
  have "opt_write eio'" if "InputClose Close ep = (r, eio', p')"
    using InputClose_write_only [of Close ep] that by simp
  then show ?thesis
    using w by blast
qed

theorem write_only_discards_input_witness:
  "ReadSingle example_lib ''[1]'' None (text_Extio\<lparr>opt_write := True\<rparr>, (2, [])) =
     (Returns None, text_Extio\<lparr>opt_write := True\<rparr>, (2, [])) \<and>
   ReadBuf example_lib (''[1]'' @ [CHR 0x0A]) None (text_Extio\<lparr>opt_write := True\<rparr>, (2, [])) =
     (Returns None, text_Extio\<lparr>opt_write := True\<rparr>, (2, [])) \<and>
   InputClose (\<lambda>i q. q) (text_Extio, (2, [])) =
     (Returns (), text_Extio\<lparr>opt_write := True\<rparr>, (2, [])) \<and>
   ReadSingle example_lib ''[1]'' None (text_Extio, (2, [])) =
     (Returns None, text_Extio,
      (2, [(0, GetMsg\<lparr>m_Type := KEEPALIVE, m_Data := ''[1]''\<rparr>)]))"
proof -
  have w: "opt_write (text_Extio\<lparr>opt_write := True\<rparr>)" by simp
  have c: "InputClose (\<lambda>i q. q) (text_Extio, (2, [])) =
     (Returns (), text_Extio\<lparr>opt_write := True\<rparr>, (2, []))"
    by (simp add: InputClose_def text_Extio_def new_Extio_def)
  have r: "ReadSingle example_lib ''[1]'' None (text_Extio, (2, [])) =
     (Returns None, text_Extio,
      (2, [(0, GetMsg\<lparr>m_Type := KEEPALIVE, m_Data := ''[1]''\<rparr>)]))"
    by (simp add: ReadSingle_def ReadSingle_finish_def check_def checkMsg_def write_input_def
        Use_def Let_def ex_defs)
  from w write_only_discards_input [where eio = "text_Extio\<lparr>opt_write := True\<rparr>"
      and lib = example_lib and cb = None and p = "(2, [])", THEN conjunct1]
  have "ReadSingle example_lib input None (text_Extio\<lparr>opt_write := True\<rparr>, (2, [])) =
          (Returns None, text_Extio\<lparr>opt_write := True\<rparr>, (2, [])) \<and>
        ReadBuf example_lib input None (text_Extio\<lparr>opt_write := True\<rparr>, (2, [])) =
          (Returns None, text_Extio\<lparr>opt_write := True\<rparr>, (2, []))" for input
    by (rule rev_mp)
  then show ?thesis using c r by simp
qed

lemma ReadSingle_finish_error:
  "ReadSingle_finish lib cb m (Some e) (eio, p) =
     (if opt_pardon eio then (Returns None, eio, p)
      else (Returns (Some e), eio\<lparr>log := log eio @ [(LogErr, e, ''input read single error'')]\<rparr>, p))"
  by (simp add: ReadSingle_finish_def)

text \<open>
  C4, as the code has it: the claim holds for an adapter that is not write-only. In
  text mode, with \<open>line\<close> the input after \<open>TrimSpace\<close>: an empty \<open>line\<close> or one that
  starts with \<open>#\<close> is skipped (\<open>nil\<close>, nothing written or logged); a \<open>line\<close> that starts
  with \<open>[\<close> is parsed by \<open>FromJSON\<close> and goes on as a \<open>KEEPALIVE\<close> when its type is
  \<open>INVALID\<close>; one that starts with \<open>{\<close> is parsed as an \<open>UPDATE\<close>; any other first
  byte is \<open>ErrFormat\<close>. On a parse error the call returns \<open>nil\<close> and changes nothing
  when \<open>--pardon\<close> is set, and otherwise logs and returns the error, with nothing written
  to an input.
\<close>

theorem ReadSingle_text:
  "\<not> opt_write eio \<and> \<not> opt_raw eio \<and> \<not> opt_mrt eio \<Longrightarrow>
   (TrimSpace lib input = [] \<or> hd (TrimSpace lib input) = CHR ''#'' \<longrightarrow>
      ReadSingle lib input cb (eio, p) = (Returns None, eio, p)) \<and>
   (TrimSpace lib input \<noteq> [] \<and> hd (TrimSpace lib input) = CHR ''['' \<and>
    FromJSON lib (TrimSpace lib input) GetMsg = (None, m) \<longrightarrow>
      ReadSingle lib input cb (eio, p) =
        ReadSingle_finish lib cb (if m_Type m = INVALID then m\<lparr>m_Type := KEEPALIVE\<rparr> else m)
          None (eio, p)) \<and>
   (TrimSpace lib input \<noteq> [] \<and> hd (TrimSpace lib input) = CHR ''{'' \<and>
    Update_FromJSON lib (TrimSpace lib input) (GetMsg\<lparr>m_Type := UPDATE\<rparr>) = (None, m) \<longrightarrow>
      ReadSingle lib input cb (eio, p) = ReadSingle_finish lib cb m None (eio, p)) \<and>
   (TrimSpace lib input \<noteq> [] \<and>
    (hd (TrimSpace lib input) = CHR ''['' \<and> FromJSON lib (TrimSpace lib input) GetMsg = (Some e, m) \<or>
     hd (TrimSpace lib input) = CHR ''{'' \<and>
       Update_FromJSON lib (TrimSpace lib input) (GetMsg\<lparr>m_Type := UPDATE\<rparr>) = (Some e, m) \<or>
     hd (TrimSpace lib input) \<notin> {CHR ''#'', CHR ''['', CHR ''{''} \<and> e = ErrFormat) \<longrightarrow>
      ReadSingle lib input cb (eio, p) =
        (if opt_pardon eio then (Returns None, eio, p)
         else (Returns (Some e),
               eio\<lparr>log := log eio @ [(LogErr, e, ''input read single error'')]\<rparr>, p)))"
  by (auto simp: ReadSingle_def Let_def Use_def ReadSingle_finish_error)

theorem ReadSingle_text_witness:
  "ReadSingle example_lib ''x'' None (text_Extio, (2, [])) =
     (Returns (Some ErrFormat),
      text_Extio\<lparr>log := [(LogErr, ErrFormat, ''input read single error'')]\<rparr>, (2, [])) \<and>
   ReadSingle example_lib ''x'' None (text_Extio\<lparr>opt_pardon := True\<rparr>, (2, [])) =
     (Returns None, text_Extio\<lparr>opt_pardon := True\<rparr>, (2, [])) \<and>
   ReadSingle example_lib '' # x'' None (text_Extio, (2, [])) = (Returns None, text_Extio, (2, [])) \<and>
   ReadSingle example_lib ''[1'' None (text_Extio, (2, [])) =
     (Returns (Some (ErrOther ''json'')),
      text_Extio\<lparr>log := [(LogErr, ErrOther ''json'', ''input read single error'')]\<rparr>, (2, [])) \<and>
   ReadSingle example_lib ''{}'' None (text_Extio, (2, [])) =
     (Returns None, text_Extio, (2, [(0, GetMsg\<lparr>m_Type := UPDATE, m_Data := ''{}''\<rparr>)]))"
proof -
  have mode: "\<not> opt_write text_Extio \<and> \<not> opt_raw text_Extio \<and> \<not> opt_mrt text_Extio"
    by (simp add: text_Extio_def new_Extio_def)
  have other: "TrimSpace example_lib ''x'' \<noteq> [] \<and>
    (hd (TrimSpace example_lib ''x'') = CHR ''['' \<and>
       FromJSON example_lib (TrimSpace example_lib ''x'') GetMsg = (Some ErrFormat, GetMsg) \<or>
     hd (TrimSpace example_lib ''x'') = CHR ''{'' \<and>
       Update_FromJSON example_lib (TrimSpace example_lib ''x'') (GetMsg\<lparr>m_Type := UPDATE\<rparr>)
         = (Some ErrFormat, GetMsg) \<or>
     hd (TrimSpace example_lib ''x'') \<notin> {CHR ''#'', CHR ''['', CHR ''{''} \<and> ErrFormat = ErrFormat)"
    by (simp add: ex_defs)
  have x: "ReadSingle example_lib ''x'' None (text_Extio, (2, [])) =
     (Returns (Some ErrFormat),
      text_Extio\<lparr>log := [(LogErr, ErrFormat, ''input read single error'')]\<rparr>, (2, []))"
    using other
      ReadSingle_text [where eio = text_Extio and lib = example_lib and input = "''x''"
        and m = GetMsg and e = ErrFormat and cb = None and p = "(2, [])", OF mode,
        THEN conjunct2, THEN conjunct2, THEN conjunct2]
    by (simp add: text_Extio_def new_Extio_def)
  have rest: "ReadSingle example_lib ''x'' None (text_Extio\<lparr>opt_pardon := True\<rparr>, (2, [])) =
     (Returns None, text_Extio\<lparr>opt_pardon := True\<rparr>, (2, [])) \<and>
   ReadSingle example_lib '' # x'' None (text_Extio, (2, [])) = (Returns None, text_Extio, (2, [])) \<and>
   ReadSingle example_lib ''[1'' None (text_Extio, (2, [])) =
     (Returns (Some (ErrOther ''json'')),
      text_Extio\<lparr>log := [(LogErr, ErrOther ''json'', ''input read single error'')]\<rparr>, (2, [])) \<and>
   ReadSingle example_lib ''{}'' None (text_Extio, (2, [])) =
     (Returns None, text_Extio, (2, [(0, GetMsg\<lparr>m_Type := UPDATE, m_Data := ''{}''\<rparr>)]))"
    by (simp add: ReadSingle_def ReadSingle_finish_def check_def checkMsg_def write_input_def
        Use_def Let_def ex_defs)
  show ?thesis using x rest by simp
qed

text \<open>
  The claim as written does not hold for every adapter in text mode: a write-only one
  returns \<open>nil\<close> for a line that is no comment, no \<open>[\<close> and no \<open>{\<close>, where the claim has
  a format error (there is no \<open>--pardon\<close>).
\<close>

theorem ReadSingle_text_counterexample:
  "\<not> opt_raw (text_Extio\<lparr>opt_write := True\<rparr>) \<and> \<not> opt_mrt (text_Extio\<lparr>opt_write := True\<rparr>) \<and>
   \<not> opt_pardon (text_Extio\<lparr>opt_write := True\<rparr>) \<and>
   TrimSpace example_lib ''x'' = ''x'' \<and>
   ReadSingle example_lib ''x'' None (text_Extio\<lparr>opt_write := True\<rparr>, (2, [])) =
     (Returns None, text_Extio\<lparr>opt_write := True\<rparr>, (2, []))"
  by (simp add: ReadSingle_def ex_defs)

subsection \<open>The adapter: the buffer of \<^verbatim>\<open>ReadStream\<close>\<close>

lemma ReadStream_step_length:
  "ReadStream_step lib rd cb (l, r, ep) = Inr (l', r', ep') \<Longrightarrow>
     l' = (if length (fst (fst (rd r l))) > l div 2 \<and> l \<le> 4 * 1024 * 1024 then l * 2 else l)"
  by (auto simp: ReadStream_step_def Let_def
      split: prod.splits if_splits outcome.splits option.splits)

lemma buffer_size_step:
  assumes "\<exists>j\<le>7. l = 64 * 1024 * 2 ^ j"
    and "l' = (if c \<and> l \<le> 4 * 1024 * 1024 then l * 2 else l)"
  shows "\<exists>j\<le>7. l' = 64 * 1024 * (2::nat) ^ j"
proof (cases "c \<and> l \<le> 4 * 1024 * 1024")
  case False
  then show ?thesis using assms by auto
next
  case True
  from assms(1) obtain j where j: "j \<le> 7" "l = 64 * 1024 * 2 ^ j" by blast
  have "(2::nat) ^ j \<le> 2 ^ 6" using True j by simp
  then have "j \<le> 6" by (simp only: power_increasing_iff [of "2::nat"]) 
  then have "Suc j \<le> 7" by simp
  moreover have "l' = 64 * 1024 * 2 ^ Suc j" using True assms(2) j by simp
  ultimately show ?thesis by blast
qed

lemma ReadStream_at_size:
  "ReadStream_at lib rd cb k (l0, rep0) = Some (l, rep) \<Longrightarrow>
   \<exists>j\<le>7. l0 = 64 * 1024 * 2 ^ j \<Longrightarrow> \<exists>j\<le>7. l = 64 * 1024 * 2 ^ j"
proof (induction k arbitrary: l0 rep0)
  case 0
  then show ?case by simp
next
  case (Suc k)
  from Suc.prems(1) obtain l1 rep1 where
    st: "ReadStream_step lib rd cb (l0, rep0) = Inr (l1, rep1)"
    and at: "ReadStream_at lib rd cb k (l1, rep1) = Some (l, rep)"
    by (auto split: sum.splits)
  obtain r0 ep0 where r0: "rep0 = (r0, ep0)" by (cases rep0) auto
  obtain r1 ep1 where r1: "rep1 = (r1, ep1)" by (cases rep1) auto
  have "\<exists>j\<le>7. l1 = 64 * 1024 * 2 ^ j"
    using buffer_size_step [OF Suc.prems(2) ReadStream_step_length [OF st [unfolded r0 r1]]] .
  from Suc.IH [OF at this] show ?case .
qed

lemma ReadStream_loop_at:
  "ReadStream_loop lib rd cb fuel st = Some res \<Longrightarrow>
     \<exists>k<fuel. \<exists>st'. ReadStream_at lib rd cb k st = Some st' \<and>
                      ReadStream_step lib rd cb st' = Inl res"
proof (induction fuel arbitrary: st)
  case 0
  then show ?case by simp
next
  case (Suc fuel)
  show ?case
  proof (cases "ReadStream_step lib rd cb st")
    case (Inl a)
    then have "ReadStream_at lib rd cb 0 st = Some st \<and> ReadStream_step lib rd cb st = Inl res"
      using Suc.prems by simp
    then show ?thesis by blast
  next
    case (Inr st1)
    then have "ReadStream_loop lib rd cb fuel st1 = Some res" using Suc.prems by simp
    from Suc.IH [OF this] obtain k st' where
      "k < fuel" "ReadStream_at lib rd cb k st1 = Some st'" "ReadStream_step lib rd cb st' = Inl res"
      by blast
    then have "Suc k < Suc fuel \<and> ReadStream_at lib rd cb (Suc k) st = Some st' \<and>
       ReadStream_step lib rd cb st' = Inl res"
      using Inr by simp
    then show ?thesis by blast
  qed
qed

text \<open>
  C6, as the code has it. The loop of \<open>ReadStream\<close> starts with a buffer of 64 KiB.
  At the start of every turn the size of the buffer is 64 KiB times a power of two, at
  least 64 KiB and at most 8 MiB; and when the loop goes on after a read of \<open>n\<close> bytes
  into a buffer of \<open>l\<close> bytes, the buffer is twice as long if \<open>n > l / 2\<close> and
  \<open>l \<le> 4 MiB\<close>, and as long as it was otherwise. These turns are the turns of
  \<open>ReadStream\<close>: a call that ends, ends in one of them.
\<close>

theorem ReadStream_buffer:
  "ReadStream_at lib rd cb 0 (64 * 1024, rep0) = Some (64 * 1024, rep0) \<and>
   (ReadStream_at lib rd cb k (64 * 1024, rep0) = Some (l, r, ep) \<longrightarrow>
      (\<exists>j\<le>7. l = 64 * 1024 * 2 ^ j) \<and> 64 * 1024 \<le> l \<and> l \<le> 8 * 1024 * 1024 \<and>
      (\<forall>l' r' ep'. ReadStream_step lib rd cb (l, r, ep) = Inr (l', r', ep') \<longrightarrow>
         l' = (if length (fst (fst (rd r l))) > l div 2 \<and> l \<le> 4 * 1024 * 1024
               then l * 2 else l))) \<and>
   (ReadStream lib rd cb fuel rep0 = Some res \<longrightarrow>
      (\<exists>n<fuel. \<exists>st. ReadStream_at lib rd cb n (64 * 1024, rep0) = Some st \<and>
                       ReadStream_step lib rd cb st = Inl res))"
proof (intro conjI impI allI)
  show "ReadStream_at lib rd cb 0 (64 * 1024, rep0) = Some (64 * 1024, rep0)" by simp
next
  assume a: "ReadStream_at lib rd cb k (64 * 1024, rep0) = Some (l, r, ep)"
  have "\<exists>j\<le>7. (64 * 1024 :: nat) = 64 * 1024 * 2 ^ j"
    by (rule exI [of _ 0]) simp
  from ReadStream_at_size [OF a this]
  show j: "\<exists>j\<le>7. l = 64 * 1024 * 2 ^ j" .
  then obtain j where j: "j \<le> 7" "l = 64 * 1024 * 2 ^ j" by blast
  have "(2::nat) ^ j \<le> 2 ^ 7" using j(1) by (simp only: power_increasing_iff [of "2::nat"]) 
  then show "l \<le> 8 * 1024 * 1024" using j(2) by simp
  show "64 * 1024 \<le> l" using j(2) by simp
next
  fix l' r' ep'
  assume "ReadStream_step lib rd cb (l, r, ep) = Inr (l', r', ep')"
  from ReadStream_step_length [OF this]
  show "l' = (if length (fst (fst (rd r l))) > l div 2 \<and> l \<le> 4 * 1024 * 1024
               then l * 2 else l)" .
next
  assume "ReadStream lib rd cb fuel rep0 = Some res"
  then show "\<exists>n<fuel. \<exists>st. ReadStream_at lib rd cb n (64 * 1024, rep0) = Some st \<and>
                       ReadStream_step lib rd cb st = Inl res"
    using ReadStream_loop_at [of lib rd cb fuel "(64 * 1024, rep0)" res]
    by (simp add: ReadStream_def)
qed

lemma full_reader_step:
  "0 < l \<Longrightarrow>
   ReadStream_step example_lib full_reader None (l, (), text_Extio\<lparr>opt_raw := True\<rparr>, p) =
     Inr (if l \<le> 4 * 1024 * 1024 then l * 2 else l, (), text_Extio\<lparr>opt_raw := True\<rparr>, p)"
  by (simp add: ReadStream_step_def full_reader_def ReadBuf_def ReadBuf_finish_def
      text_Extio_def new_Extio_def example_lib_def Let_def)

theorem ReadStream_buffer_witness:
  "ReadStream_at example_lib full_reader None 2
     (64 * 1024, (), text_Extio\<lparr>opt_raw := True\<rparr>, (2, [])) =
   Some (256 * 1024, (), text_Extio\<lparr>opt_raw := True\<rparr>, (2, [])) \<and>
   (256 * 1024 :: nat) \<le> 8 * 1024 * 1024"
proof -
  have "(2::nat) = Suc (Suc 0)" by simp
  then have at: "ReadStream_at example_lib full_reader None 2
     (64 * 1024, (), text_Extio\<lparr>opt_raw := True\<rparr>, (2, [])) =
   Some (256 * 1024, (), text_Extio\<lparr>opt_raw := True\<rparr>, (2, []))"
    by (simp only: ReadStream_at.simps) (simp add: full_reader_step)
  from at ReadStream_buffer [of example_lib full_reader None "((), text_Extio\<lparr>opt_raw := True\<rparr>, (2, []))"
      2 "256 * 1024" "()" "(text_Extio\<lparr>opt_raw := True\<rparr>, (2, []))", THEN conjunct2,
      THEN conjunct1]
  have "(256 * 1024 :: nat) \<le> 8 * 1024 * 1024" by blast
  with at show ?thesis by simp
qed

text \<open>
  The claim as written fails at the bound: a reader that fills the buffer every time
  takes it from 64 KiB to 8 MiB in seven turns, since a buffer of exactly 4 MiB is still
  doubled.
\<close>

theorem ReadStream_buffer_counterexample:
  "ReadStream_at example_lib full_reader None 7
     (64 * 1024, (), text_Extio\<lparr>opt_raw := True\<rparr>, (2, [])) =
   Some (8 * 1024 * 1024, (), text_Extio\<lparr>opt_raw := True\<rparr>, (2, [])) \<and>
   (4 * 1024 * 1024 :: nat) < 8 * 1024 * 1024"
proof -
  have "(7::nat) = Suc (Suc (Suc (Suc (Suc (Suc (Suc 0))))))" by simp
  then show ?thesis
    by (simp only: ReadStream_at.simps) (simp add: full_reader_step)
qed

subsection \<open>The adapter: \<^verbatim>\<open>SendMsg\<close>\<close>

text \<open>
  C7, as the code has it. With \<open>--mrt\<close> set, and the adapter neither read-only nor
  in raw mode, \<open>SendMsg\<close> panics with \<open>TODO\<close> for every message: nothing is serialized
  or queued, and the message has been marked drop unless \<open>--copy\<close> is set.
\<close>

theorem SendMsg_mrt:
  "opt_mrt eio \<and> \<not> opt_read eio \<and> \<not> opt_raw eio \<Longrightarrow>
     SendMsg lib m eio =
       (Panics ''TODO'', (if opt_copy eio then m else m\<lparr>m_drop := True\<rparr>), eio)"
  by (simp add: SendMsg_def Let_def)

theorem SendMsg_mrt_witness:
  "SendMsg example_lib GetMsg (text_Extio\<lparr>opt_mrt := True\<rparr>) =
     (Panics ''TODO'', GetMsg\<lparr>m_drop := True\<rparr>, text_Extio\<lparr>opt_mrt := True\<rparr>)"
proof -
  have "opt_mrt (text_Extio\<lparr>opt_mrt := True\<rparr>) \<and> \<not> opt_read (text_Extio\<lparr>opt_mrt := True\<rparr>) \<and>
        \<not> opt_raw (text_Extio\<lparr>opt_mrt := True\<rparr>)"
    by (simp add: text_Extio_def new_Extio_def)
  from SendMsg_mrt [where lib = example_lib and m = GetMsg, OF this]
  show ?thesis by (simp add: text_Extio_def new_Extio_def)
qed

text \<open>
  The claim as written fails for a read-only adapter: with \<open>--mrt\<close> and \<open>--read\<close> set
  \<open>SendMsg\<close> returns true and signals nothing.
\<close>

theorem SendMsg_mrt_counterexample:
  "opt_mrt (text_Extio\<lparr>opt_mrt := True, opt_read := True\<rparr>) \<and>
   SendMsg example_lib GetMsg (text_Extio\<lparr>opt_mrt := True, opt_read := True\<rparr>) =
     (Returns True, GetMsg, text_Extio\<lparr>opt_mrt := True, opt_read := True\<rparr>)"
  by (simp add: SendMsg_def)

lemma SendMsg_finish_fst: "fst (SendMsg_finish err bb m eio) = Returns True"
  by (simp add: SendMsg_finish_def split: option.splits prod.splits)

text \<open>
  C10, as the code has it. \<open>SendMsg\<close> returns true whenever it returns, that is in
  every mode but the one where it panics (\<open>--mrt\<close> set, not read-only, not raw). When
  the serialization fails (\<open>Marshal\<close> or \<open>WriteTo\<close> in raw mode), it returns true with
  a warning logged and nothing else changed in the adapter, so nothing is queued, and
  the message is marked drop unless \<open>--copy\<close> is set (or it was already).
\<close>

theorem SendMsg_returns_true:
  "(\<not> (opt_mrt eio \<and> \<not> opt_read eio \<and> \<not> opt_raw eio) \<longrightarrow>
      fst (SendMsg lib m eio) = Returns True) \<and>
   (\<not> opt_read eio \<and> opt_raw eio \<and>
    (fst (Marshal lib (if opt_copy eio then m else m\<lparr>m_drop := True\<rparr>)) = Some e \<or>
     fst (Marshal lib (if opt_copy eio then m else m\<lparr>m_drop := True\<rparr>)) = None \<and>
     fst (WriteTo lib ((if opt_copy eio then m else m\<lparr>m_drop := True\<rparr>)
            \<lparr>m_Data := snd (Marshal lib (if opt_copy eio then m else m\<lparr>m_drop := True\<rparr>))\<rparr>))
       = Some e) \<longrightarrow>
      (\<exists>m'. SendMsg lib m eio =
              (Returns True, m', eio\<lparr>log := log eio @ [(LogWarn, e, ''extio write error'')]\<rparr>) \<and>
            m_drop m' = (\<not> opt_copy eio \<or> m_drop m)))"
  by (auto simp: SendMsg_def Let_def SendMsg_finish_fst SendMsg_finish_def
      split: prod.splits option.splits)

theorem SendMsg_returns_true_witness:
  "SendMsg example_lib GetMsg (text_Extio\<lparr>opt_raw := True\<rparr>) =
     (Returns True, GetMsg\<lparr>m_drop := True\<rparr>,
      text_Extio\<lparr>opt_raw := True, log := [(LogWarn, ErrOther ''marshal'', ''extio write error'')]\<rparr>) \<and>
   SendMsg example_lib (GetMsg\<lparr>m_Data := ''{}''\<rparr>) text_Extio =
     (Returns True, GetMsg\<lparr>m_Data := ''{}'', m_drop := True\<rparr>, text_Extio\<lparr>Output := [''{}'']\<rparr>)"
proof -
  let ?e = "text_Extio\<lparr>opt_raw := True\<rparr>"
  have ev: "SendMsg example_lib GetMsg (text_Extio\<lparr>opt_raw := True\<rparr>) =
     (Returns True, GetMsg\<lparr>m_drop := True\<rparr>,
      text_Extio\<lparr>opt_raw := True, log := [(LogWarn, ErrOther ''marshal'', ''extio write error'')]\<rparr>) \<and>
   SendMsg example_lib (GetMsg\<lparr>m_Data := ''{}''\<rparr>) text_Extio =
     (Returns True, GetMsg\<lparr>m_Data := ''{}'', m_drop := True\<rparr>, text_Extio\<lparr>Output := [''{}'']\<rparr>)"
    by (simp add: SendMsg_def SendMsg_finish_def send_safe_def Let_def ex_defs)
  have "\<not> (opt_mrt ?e \<and> \<not> opt_read ?e \<and> \<not> opt_raw ?e)"
    by simp
  from this SendMsg_returns_true [where eio = ?e and lib = example_lib and m = GetMsg,
      THEN conjunct1]
  have "fst (SendMsg example_lib GetMsg ?e) = Returns True"
    by (rule rev_mp)
  then show ?thesis using ev by simp
qed

text \<open>
  The claim as written fails in MRT mode: there \<open>SendMsg\<close> panics and returns
  nothing.
\<close>

theorem SendMsg_returns_true_counterexample:
  "fst (SendMsg example_lib (GetMsg\<lparr>m_Type := UPDATE\<rparr>)
          (text_Extio\<lparr>opt_mrt := True, opt_copy := True\<rparr>)) = Panics ''TODO'' \<and>
   fst (SendMsg example_lib (GetMsg\<lparr>m_Type := UPDATE\<rparr>)
          (text_Extio\<lparr>opt_mrt := True, opt_copy := True\<rparr>)) \<noteq> Returns True"
  by (simp add: SendMsg_def Let_def text_Extio_def new_Extio_def)

end
